theory Spec2Isabelle
  imports Complex_Main
begin

section \<open>Values, arrays and exceptions\<close>

text \<open>
  The module \<^verbatim>\<open>httcp/production/PhiCP_Estimator.py\<close> computes the acoplanarity angle
  of the two legs of a Higgs candidate with numpy, awkward and coffea arrays.

  Conventions of the embedding.
  \<^item> An array is the list of its entries for one event (the arrays are jagged: one
    inner list per event, as the slices \<^verbatim>\<open>hcand_pi[:,:1]\<close> and the output type
    \<^verbatim>\<open>var * float32\<close> show). The batch of events is processed event by event, so
    a function of this theory is the source's function at one event.
  \<^item> Floating-point numbers are real numbers and the arithmetic of the module is
    exact. The conversion of the result to single precision in \<^verbatim>\<open>GetPhiCP\<close> is a
    function of the library, a parameter of the model. The one place where
    the module itself can make a not-a-number of numbers is \<^verbatim>\<open>np.arccos\<close> outside
    \<open>[-1, 1]\<close>; the angles are therefore values of \<open>npfloat\<close>, a real number or
    \<open>NaN\<close>.
  \<^item> An exception is a value \<open>Inl e\<close> of the result type. \<open>LibraryError\<close> stands
    for an exception raised inside numpy, awkward or coffea: two arrays of different
    lengths combined entry by entry, or a value of the wrong kind (\<^verbatim>\<open>None\<close> where an
    array is used, numbers where vectors are used).
\<close>

datatype err = AssertionError | KeyError string | RuntimeError string | LibraryError

definition bindE :: "err + 'a \<Rightarrow> ('a \<Rightarrow> err + 'b) \<Rightarrow> err + 'b" where
  "bindE m f = (case m of Inl e \<Rightarrow> Inl e | Inr v \<Rightarrow> f v)"

datatype npfloat = Num real | NaN

text \<open>Arithmetic and comparisons of an angle with a constant. A comparison with
  \<open>NaN\<close> is false, arithmetic on \<open>NaN\<close> gives \<open>NaN\<close>.\<close>

fun fadd :: "npfloat \<Rightarrow> real \<Rightarrow> npfloat" where
  "fadd (Num a) c = Num (a + c)"
| "fadd NaN c = NaN"

fun fsub :: "npfloat \<Rightarrow> real \<Rightarrow> npfloat" where
  "fsub (Num a) c = Num (a - c)"
| "fsub NaN c = NaN"

fun frsub :: "real \<Rightarrow> npfloat \<Rightarrow> npfloat" where
  "frsub c (Num a) = Num (c - a)"
| "frsub c NaN = NaN"

fun fgt :: "npfloat \<Rightarrow> real \<Rightarrow> bool" where
  "fgt (Num a) c = (c < a)"
| "fgt NaN c = False"

fun flt :: "npfloat \<Rightarrow> real \<Rightarrow> bool" where
  "flt (Num a) c = (a < c)"
| "flt NaN c = False"

definition np_arccos :: "real \<Rightarrow> npfloat" where
  "np_arccos d = (if - 1 \<le> d \<and> d \<le> 1 then Num (arccos d) else NaN)"

text \<open>Three-vectors with the dot and cross products of the vector library.\<close>

datatype vec3 = Vec3 real real real

fun dot :: "vec3 \<Rightarrow> vec3 \<Rightarrow> real" where
  "dot (Vec3 a b c) (Vec3 d e f) = a * d + b * e + c * f"

fun cross :: "vec3 \<Rightarrow> vec3 \<Rightarrow> vec3" where
  "cross (Vec3 a b c) (Vec3 d e f) = Vec3 (b * f - c * e) (c * d - a * f) (a * e - b * d)"

text \<open>An operation on two arrays works entry by entry and raises when the lengths
  differ; \<^verbatim>\<open>ak.where\<close> selects entry by entry between two arrays.\<close>

definition ew2 :: "('a \<Rightarrow> 'b \<Rightarrow> 'c) \<Rightarrow> 'a list \<Rightarrow> 'b list \<Rightarrow> err + 'c list" where
  "ew2 f xs ys = (if length xs = length ys then Inr (map2 f xs ys) else Inl LibraryError)"

definition ak_where :: "bool list \<Rightarrow> 'a list \<Rightarrow> 'a list \<Rightarrow> err + 'a list" where
  "ak_where cs xs ys =
     (if length cs = length xs \<and> length xs = length ys
      then Inr (map (\<lambda>(c, x, y). if c then x else y) (zip cs (zip xs ys)))
      else Inl LibraryError)"

section \<open>ComputeAcopAngle\<close>

text \<open>A value of the dictionary handed to \<^verbatim>\<open>ComputeAcopAngle\<close>: \<^verbatim>\<open>None\<close>, an
  array of three-vectors or an array of numbers.\<close>

datatype pyval = PyNone | VecArr "vec3 list" | NumArr "real list"

fun as_vecs :: "pyval \<Rightarrow> err + vec3 list" where
  "as_vecs (VecArr vs) = Inr vs"
| "as_vecs v = Inl LibraryError"

fun as_nums :: "pyval \<Rightarrow> err + real list" where
  "as_nums (NumArr xs) = Inr xs"
| "as_nums v = Inl LibraryError"

fun as_opt_nums :: "pyval \<Rightarrow> err + real list option" where
  "as_opt_nums PyNone = Inr None"
| "as_opt_nums (NumArr xs) = Inr (Some xs)"
| "as_opt_nums (VecArr vs) = Inl LibraryError"

definition getitem :: "(string \<rightharpoonup> 'v) \<Rightarrow> string \<Rightarrow> err + 'v" where
  "getitem d k = (case d k of None \<Rightarrow> Inl (KeyError k) | Some v \<Rightarrow> Inr v)"

text \<open>\<^verbatim>\<open>_getSign\<close>: the triple product, ordered by the charge of leg 1. The
  argument \<open>C2\<close> is received and never read.\<close>

definition getSign ::
  "vec3 list \<Rightarrow> vec3 list \<Rightarrow> vec3 list \<Rightarrow> vec3 list \<Rightarrow> real list \<Rightarrow> pyval \<Rightarrow> err + real list" where
  "getSign P1 H1 P2 H2 C1 C2 =
     bindE (ak_where (map (\<lambda>c. c < 0) C1) P1 P2) (\<lambda>Pm.
     bindE (ak_where (map (\<lambda>c. c < 0) C1) H1 H2) (\<lambda>Hm.
     bindE (ak_where (map (\<lambda>c. c < 0) C1) H2 H1) (\<lambda>Hp.
     bindE (ew2 cross Hp Hm) (\<lambda>HpxHm.
     ew2 dot Pm HpxHm))))"

text \<open>Lines 140 to 148: the phase-shift discriminant of the pair.\<close>

definition combineY :: "real list option \<Rightarrow> real list option \<Rightarrow> err + real list option" where
  "combineY Y1 Y2 =
     (case Y1 of
        Some y1 \<Rightarrow>
          (case Y2 of
             Some y2 \<Rightarrow> bindE (ew2 (\<lambda>a b. a * b) y1 y2) (\<lambda>y. Inr (Some y))
           | None \<Rightarrow> Inr (Some y1))
      | None \<Rightarrow>
          (case Y2 of
             Some y2 \<Rightarrow> Inr (Some y2)
           | None \<Rightarrow> Inr None))"

text \<open>Line 152: the sign step. Lines 153 and 154: the half turn of the phase shift.
  Lines 160 and 161: the final mapping of the angle.\<close>

definition signStep :: "real list \<Rightarrow> npfloat list \<Rightarrow> err + npfloat list" where
  "signStep sign acop = ak_where (map (\<lambda>s. s < 0) sign) (map (frsub (2 * pi)) acop) acop"

definition shiftStep :: "real list option \<Rightarrow> npfloat list \<Rightarrow> err + npfloat list" where
  "shiftStep Y acop =
     (case Y of
        None \<Rightarrow> Inr acop
      | Some y \<Rightarrow> ak_where (map (\<lambda>v. v < 0) y) (map (\<lambda>a. fadd a pi) acop) acop)"

definition wrapStep :: "npfloat list \<Rightarrow> err + npfloat list" where
  "wrapStep acop =
     bindE (ak_where (map (\<lambda>a. fgt a (2 * pi)) acop) (map (\<lambda>a. fsub a (2 * pi)) acop) acop) (\<lambda>acop'.
     ak_where (map (\<lambda>a. flt a 0) acop') (map (\<lambda>a. fadd a (2 * pi)) acop') acop')"

text \<open>Lines 140 to 154: the angle before the final mapping.\<close>

definition preWrap ::
  "vec3 list \<Rightarrow> vec3 list \<Rightarrow> vec3 list \<Rightarrow> real list \<Rightarrow>
   vec3 list \<Rightarrow> vec3 list \<Rightarrow> vec3 list \<Rightarrow> pyval \<Rightarrow>
   real list option \<Rightarrow> real list option \<Rightarrow> err + npfloat list" where
  "preWrap P1 R1 H1 C1 P2 R2 H2 C2 Y1 Y2 =
     bindE (combineY Y1 Y2) (\<lambda>Y.
     bindE (ew2 dot R1 R2) (\<lambda>d.
     bindE (getSign P1 H1 P2 H2 C1 C2) (\<lambda>sign.
     bindE (signStep sign (map np_arccos d)) (\<lambda>acop.
     shiftStep Y acop))))"

text \<open>The function itself: the assertion on the size of the dictionary, the ten
  lookups in the order of the source, then the computation. The values are used as
  vectors (P, R, H), numbers (C1) and numbers or \<^verbatim>\<open>None\<close> (Y); \<^verbatim>\<open>C2\<close> is
  looked up and passed on, and nothing is done with it.\<close>

definition ComputeAcopAngle :: "(string \<rightharpoonup> pyval) \<Rightarrow> err + npfloat list" where
  "ComputeAcopAngle vecsdict =
     (if card (dom vecsdict) \<noteq> 10 then Inl AssertionError else
      bindE (getitem vecsdict ''P1'') (\<lambda>P1.
      bindE (getitem vecsdict ''R1'') (\<lambda>R1.
      bindE (getitem vecsdict ''H1'') (\<lambda>H1.
      bindE (getitem vecsdict ''C1'') (\<lambda>C1.
      bindE (getitem vecsdict ''P2'') (\<lambda>P2.
      bindE (getitem vecsdict ''R2'') (\<lambda>R2.
      bindE (getitem vecsdict ''H2'') (\<lambda>H2.
      bindE (getitem vecsdict ''C2'') (\<lambda>C2.
      bindE (getitem vecsdict ''Y1'') (\<lambda>Y1.
      bindE (getitem vecsdict ''Y2'') (\<lambda>Y2.
      bindE (as_vecs P1) (\<lambda>p1.
      bindE (as_vecs R1) (\<lambda>r1.
      bindE (as_vecs H1) (\<lambda>h1.
      bindE (as_nums C1) (\<lambda>c1.
      bindE (as_vecs P2) (\<lambda>p2.
      bindE (as_vecs R2) (\<lambda>r2.
      bindE (as_vecs H2) (\<lambda>h2.
      bindE (as_opt_nums Y1) (\<lambda>y1.
      bindE (as_opt_nums Y2) (\<lambda>y2.
      bindE (preWrap p1 r1 h1 c1 p2 r2 h2 C2 y1 y2) wrapStep))))))))))))))))))))"

section \<open>Preparing the vectors\<close>

text \<open>A Lorentz vector \<open>(x, y, z, t)\<close>, and a particle of the input: its Lorentz
  vector, its charge and its impact parameter.\<close>

record lvec =
  vx :: real
  vy :: real
  vz :: real
  vt :: real

record particle =
  p4 :: lvec
  charge :: real
  IPx :: real
  IPy :: real
  IPz :: real

text \<open>The functions of the vector library (coffea), of numpy (the division, the
  conversion of a number to single precision) and of the a1 polarimetric-vector class
  are not part of the module; the module's functions take them as the parameter
  \<open>L\<close>. \<open>lib_mass\<close> may give \<open>NaN\<close>; \<open>lib_PVC P os ss1 ss2 charge\<close> stands
  for \<^verbatim>\<open>PolarimetricA1(P, os, ss1, ss2, charge).PVC()\<close>; \<open>lib_float32 x\<close> is the
  single-precision number that \<^verbatim>\<open>ak.values_astype(..., np.float32)\<close> makes of
  \<open>x\<close>.\<close>

record veclib =
  lib_boostvec :: "lvec \<Rightarrow> vec3"
  lib_mass :: "lvec \<Rightarrow> npfloat"
  lib_mass2 :: "lvec \<Rightarrow> real"
  lib_dot4 :: "lvec \<Rightarrow> lvec \<Rightarrow> real"
  lib_boost :: "lvec \<Rightarrow> vec3 \<Rightarrow> lvec"
  lib_unit :: "vec3 \<Rightarrow> vec3"
  lib_divide :: "real \<Rightarrow> real \<Rightarrow> real"
  lib_float32 :: "real \<Rightarrow> real"
  lib_PVC :: "lvec list \<Rightarrow> lvec list \<Rightarrow> lvec list \<Rightarrow> lvec list \<Rightarrow> real list \<Rightarrow> err + lvec list"

definition pvec :: "lvec \<Rightarrow> vec3" where
  "pvec v = Vec3 (vx v) (vy v) (vz v)"

definition ladd :: "lvec \<Rightarrow> lvec \<Rightarrow> lvec" where
  "ladd a b = \<lparr>vx = vx a + vx b, vy = vy a + vy b, vz = vz a + vz b, vt = vt a + vt b\<rparr>"

definition lsub :: "lvec \<Rightarrow> lvec \<Rightarrow> lvec" where
  "lsub a b = \<lparr>vx = vx a - vx b, vy = vy a - vy b, vz = vz a - vz b, vt = vt a - vt b\<rparr>"

fun negative :: "vec3 \<Rightarrow> vec3" where
  "negative (Vec3 a b c) = Vec3 (- a) (- b) (- c)"

fun vsub :: "vec3 \<Rightarrow> vec3 \<Rightarrow> vec3" where
  "vsub (Vec3 a b c) (Vec3 d e f) = Vec3 (a - d) (b - e) (c - f)"

fun smul :: "real \<Rightarrow> vec3 \<Rightarrow> vec3" where
  "smul k (Vec3 a b c) = Vec3 (k * a) (k * b) (k * c)"

text \<open>The slice \<^verbatim>\<open>a[:, i:j]\<close> of the entries of one event.\<close>

definition slice :: "nat \<Rightarrow> nat \<Rightarrow> 'a list \<Rightarrow> 'a list" where
  "slice i j xs = take (j - i) (drop i xs)"

text \<open>\<^verbatim>\<open>_get_pi_a1_DP\<close>: of the two same-sign pions, the one whose pair with the
  opposite-sign pion has the invariant mass closer to the rho mass. A comparison
  with a \<open>NaN\<close> mass is false.\<close>

fun absdiff_less :: "npfloat \<Rightarrow> npfloat \<Rightarrow> bool" where
  "absdiff_less (Num m1) (Num m2) = (\<bar>77526 / 100000 - m1\<bar> < \<bar>77526 / 100000 - m2\<bar>)"
| "absdiff_less m1 m2 = False"

definition get_pi_a1_DP :: "veclib \<Rightarrow> particle list \<Rightarrow> err + particle list" where
  "get_pi_a1_DP L p4_pi =
     bindE (ew2 (\<lambda>a b. ladd (p4 a) (p4 b)) (slice 0 1 p4_pi) (slice 1 2 p4_pi)) (\<lambda>s1.
     bindE (ew2 (\<lambda>a b. ladd (p4 a) (p4 b)) (slice 0 1 p4_pi) (slice 2 3 p4_pi)) (\<lambda>s2.
     bindE (ew2 absdiff_less (map (lib_mass L) s1) (map (lib_mass L) s2)) (\<lambda>closer.
     ak_where closer (slice 1 2 p4_pi) (slice 2 3 p4_pi))))"

text \<open>\<^verbatim>\<open>_prepareVecs\<close>. \<open>_P\<close> and \<open>_R\<close> start as \<^verbatim>\<open>None\<close>; the branch for the
  method IP has no \<^verbatim>\<open>else\<close>, so a mode other than e, mu and pi leaves both
  \<^verbatim>\<open>None\<close> and the function returns.\<close>

definition prepareVecs ::
  "veclib \<Rightarrow> particle list \<Rightarrow> particle list \<Rightarrow> particle list \<Rightarrow> string \<Rightarrow> string \<Rightarrow>
   err + (particle list option \<times> particle list option \<times> real list)" where
  "prepareVecs L hcand hcand_pi hcand_pi0 leg_method leg_mode =
     bindE
       (if leg_method = ''DP'' then
          (if leg_mode = ''rho'' then Inr (Some hcand_pi, Some hcand_pi0)
           else if leg_mode = ''a1'' then
             bindE (get_pi_a1_DP L hcand_pi) (\<lambda>P. Inr (Some P, Some (slice 0 1 hcand_pi)))
           else Inl (RuntimeError (''Wrong mode : '' @ leg_mode)))
        else if leg_method = ''PV'' then Inr (Some hcand, Some hcand_pi)
        else if leg_method = ''IP'' then
          (if leg_mode = ''e'' \<or> leg_mode = ''mu'' then Inr (Some hcand, Some hcand)
           else if leg_mode = ''pi'' then Inr (Some hcand_pi, Some hcand)
           else Inr (None, None))
        else Inl (RuntimeError (''Wrong '' @ leg_method)))
       (\<lambda>(P, R). Inr (P, R, map charge hcand))"

text \<open>The sum of two arrays of particles; \<^verbatim>\<open>None\<close> cannot be added.\<close>

definition addA :: "particle list option \<Rightarrow> particle list option \<Rightarrow> err + lvec list" where
  "addA A B =
     (case A of
        None \<Rightarrow> Inl LibraryError
      | Some a \<Rightarrow>
          (case B of
             None \<Rightarrow> Inl LibraryError
           | Some b \<Rightarrow> ew2 (\<lambda>u v. ladd (p4 u) (p4 v)) a b))"

text \<open>\<^verbatim>\<open>_getBoost\<close>: the boost vector of the frame.\<close>

definition getBoost ::
  "veclib \<Rightarrow> particle list option \<Rightarrow> particle list option \<Rightarrow>
   particle list option \<Rightarrow> particle list option \<Rightarrow>
   string \<Rightarrow> string \<Rightarrow> string \<Rightarrow> string \<Rightarrow> err + vec3 list" where
  "getBoost L P1 R1 P2 R2 leg1_method leg2_method leg1_mode leg2_mode =
     bindE
       (if leg1_method = ''PV'' \<and> leg2_method = ''PV'' then
          (if leg1_mode = ''pi'' \<and> leg2_mode = ''pi'' then addA R1 R2 else addA P1 P2)
        else addA P1 P2)
       (\<lambda>frame. Inr (map (lib_boostvec L) frame))"

text \<open>Boosting an array of particles, entry by entry, into the frame; an array that
  is \<^verbatim>\<open>None\<close> has no method \<^verbatim>\<open>boost\<close>.\<close>

definition boostA :: "veclib \<Rightarrow> vec3 list \<Rightarrow> particle list option \<Rightarrow> err + lvec list" where
  "boostA L boostv V =
     (case V of
        None \<Rightarrow> Inl LibraryError
      | Some v \<Rightarrow> ew2 (\<lambda>a b. lib_boost L (p4 a) (negative b)) v boostv)"

text \<open>The unit vector of \<open>r\<close> transverse to the unit vector \<open>p\<close> (lines 331 and 364).\<close>

definition transverse :: "veclib \<Rightarrow> vec3 \<Rightarrow> vec3 \<Rightarrow> vec3" where
  "transverse L p r = lib_unit L (vsub r (smul (dot p r) p))"

text \<open>\<^verbatim>\<open>_pv\<close>: the tau direction, the polarimetric vector and their normal.\<close>

definition pv ::
  "veclib \<Rightarrow> vec3 list \<Rightarrow> particle list option \<Rightarrow> particle list option \<Rightarrow> particle list \<Rightarrow>
   string \<Rightarrow> err + (vec3 list \<times> vec3 list \<times> vec3 list)" where
  "pv L boostv tau pions pi0 leg_mode =
     bindE (boostA L boostv tau) (\<lambda>P.
     bindE
       (if leg_mode = ''pi'' then
          bindE (boostA L boostv pions) (\<lambda>pib. Inr (map pvec pib))
        else if leg_mode = ''rho'' then
          bindE (boostA L boostv pions) (\<lambda>pib.
          bindE (boostA L boostv (Some pi0)) (\<lambda>pi0b.
          bindE (ew2 lsub pib pi0b) (\<lambda>q.
          bindE (ew2 ladd pib pi0b) (\<lambda>s.
          bindE (ew2 lsub P s) (\<lambda>N.
          ew2 (\<lambda>a b. vsub (smul (2 * lib_dot4 L a b) (pvec a)) (smul (lib_mass2 L a) (pvec b))) q N)))))
        else if leg_mode = ''a1'' then
          bindE (boostA L boostv (map_option (slice 0 1) pions)) (\<lambda>os_pi_HRF.
          bindE (boostA L boostv (map_option (slice 1 2) pions)) (\<lambda>ss1_pi_HRF.
          bindE (boostA L boostv (map_option (slice 2 3) pions)) (\<lambda>ss2_pi_HRF.
          bindE (case tau of None \<Rightarrow> Inl LibraryError | Some t \<Rightarrow> Inr (map charge t)) (\<lambda>tau_charge.
          bindE (lib_PVC L P os_pi_HRF ss1_pi_HRF ss2_pi_HRF tau_charge) (\<lambda>a1pol.
          Inr (map (\<lambda>v. negative (pvec v)) a1pol))))))
        else Inl (RuntimeError (''Wrong mode: '' @ leg_mode)))
       (\<lambda>pvs.
     bindE (ew2 (\<lambda>h p. lib_unit L (cross (lib_unit L h) (lib_unit L (pvec p)))) pvs P) (\<lambda>R.
     Inr (map (\<lambda>p. lib_unit L (pvec p)) P, R, map (lib_unit L) pvs))))"

text \<open>\<^verbatim>\<open>_reStructureVecs\<close>: the vectors of one leg in the frame. \<open>Y\<close> is made by
  the method DP only.\<close>

definition reStructureVecs ::
  "veclib \<Rightarrow> vec3 list \<Rightarrow> particle list option \<Rightarrow> particle list option \<Rightarrow> particle list \<Rightarrow>
   string \<Rightarrow> string \<Rightarrow> err + (vec3 list \<times> vec3 list \<times> vec3 list \<times> real list option)" where
  "reStructureVecs L boostv V1 V2 V3 leg_method leg_mode =
     (if leg_method = ''DP'' then
        bindE (boostA L boostv V1) (\<lambda>pi_ZMF.
        bindE (boostA L boostv V2) (\<lambda>pi0_ZMF.
        bindE (ew2 (\<lambda>a b. transverse L (lib_unit L (pvec a)) (lib_unit L (pvec b))) pi_ZMF pi0_ZMF) (\<lambda>R.
        bindE (ew2 (\<lambda>a b. lib_divide L (vt a - vt b) (vt a + vt b)) pi_ZMF pi0_ZMF) (\<lambda>Y.
        Inr (map (\<lambda>a. lib_unit L (pvec a)) pi_ZMF, R, R, Some Y)))))
      else if leg_method = ''PV'' then
        bindE (pv L boostv V1 V2 V3 leg_mode) (\<lambda>(P, R, H). Inr (P, R, H, None))
      else if leg_method = ''IP'' then
        bindE (boostA L boostv V1) (\<lambda>P_ZMF.
        bindE (boostA L boostv
                 (map_option (map (\<lambda>v. v\<lparr>p4 := \<lparr>vx = IPx v, vy = IPy v, vz = IPz v, vt = 0\<rparr>\<rparr>)) V2)) (\<lambda>R_ZMF.
        bindE (ew2 (\<lambda>r p. transverse L (lib_unit L (pvec p)) (lib_unit L (pvec r))) R_ZMF P_ZMF) (\<lambda>R.
        Inr (map (\<lambda>p. lib_unit L (pvec p)) P_ZMF, R, R, None))))
      else Inl (RuntimeError (''Wrong method: '' @ leg_method)))"

text \<open>The dictionary returned by \<^verbatim>\<open>PrepareVecsForPhiCP\<close> (lines 107 to 109).\<close>

definition optY :: "real list option \<Rightarrow> pyval" where
  "optY Y = (case Y of None \<Rightarrow> PyNone | Some y \<Rightarrow> NumArr y)"

definition vecsDict ::
  "vec3 list \<Rightarrow> vec3 list \<Rightarrow> vec3 list \<Rightarrow> real list \<Rightarrow>
   vec3 list \<Rightarrow> vec3 list \<Rightarrow> vec3 list \<Rightarrow> real list \<Rightarrow>
   real list option \<Rightarrow> real list option \<Rightarrow> (string \<rightharpoonup> pyval)" where
  "vecsDict P1 R1 H1 C1 P2 R2 H2 C2 Y1 Y2 =
     [''P1'' \<mapsto> VecArr P1, ''R1'' \<mapsto> VecArr R1, ''H1'' \<mapsto> VecArr H1, ''C1'' \<mapsto> NumArr C1,
      ''P2'' \<mapsto> VecArr P2, ''R2'' \<mapsto> VecArr R2, ''H2'' \<mapsto> VecArr H2, ''C2'' \<mapsto> NumArr C2,
      ''Y1'' \<mapsto> optY Y1, ''Y2'' \<mapsto> optY Y2]"

text \<open>\<^verbatim>\<open>PrepareVecsForPhiCP\<close>: the six lookups, the selection for each leg, one
  boost vector, the restructuring of each leg with it, and the dictionary.\<close>

definition PrepareVecsForPhiCP ::
  "veclib \<Rightarrow> (string \<rightharpoonup> particle list) \<Rightarrow> string \<Rightarrow> string \<Rightarrow> string \<Rightarrow> string \<Rightarrow>
   err + (string \<rightharpoonup> pyval)" where
  "PrepareVecsForPhiCP L p4hcandinfodict method_leg1 method_leg2 mode_leg1 mode_leg2 =
     bindE (getitem p4hcandinfodict ''p4h1'') (\<lambda>p4h1.
     bindE (getitem p4hcandinfodict ''p4h1pi'') (\<lambda>p4h1pi.
     bindE (getitem p4hcandinfodict ''p4h1pi0'') (\<lambda>p4h1pi0.
     bindE (getitem p4hcandinfodict ''p4h2'') (\<lambda>p4h2.
     bindE (getitem p4hcandinfodict ''p4h2pi'') (\<lambda>p4h2pi.
     bindE (getitem p4hcandinfodict ''p4h2pi0'') (\<lambda>p4h2pi0.
     bindE (prepareVecs L p4h1 p4h1pi p4h1pi0 method_leg1 mode_leg1) (\<lambda>(P1', R1', C1).
     bindE (prepareVecs L p4h2 p4h2pi p4h2pi0 method_leg2 mode_leg2) (\<lambda>(P2', R2', C2).
     bindE (getBoost L P1' R1' P2' R2' method_leg1 method_leg2 mode_leg1 mode_leg2) (\<lambda>boostv.
     bindE (reStructureVecs L boostv P1' R1' p4h1pi0 method_leg1 mode_leg1) (\<lambda>(P1, R1, H1, Y1).
     bindE (reStructureVecs L boostv P2' R2' p4h2pi0 method_leg2 mode_leg2) (\<lambda>(P2, R2, H2, Y2).
     Inr (vecsDict P1 R1 H1 C1 P2 R2 H2 C2 Y1 Y2))))))))))))"

text \<open>The conversion of an angle to single precision (lines 51 and 52); \<open>NaN\<close>
  stays \<open>NaN\<close>.\<close>

fun values_astype_float32 :: "veclib \<Rightarrow> npfloat \<Rightarrow> npfloat" where
  "values_astype_float32 L (Num a) = Num (lib_float32 L a)"
| "values_astype_float32 L NaN = NaN"

text \<open>\<^verbatim>\<open>GetPhiCP\<close>: the vectors are prepared, the angle is computed, and every
  angle is converted to single precision. (\<^verbatim>\<open>ak.enforce_type\<close> on line 53 changes the
  type of the array and none of its values.)\<close>

definition GetPhiCP ::
  "veclib \<Rightarrow> (string \<rightharpoonup> particle list) \<Rightarrow> string \<Rightarrow> string \<Rightarrow> string \<Rightarrow> string \<Rightarrow>
   err + npfloat list" where
  "GetPhiCP L p4hcandinfodict method_leg1 method_leg2 mode_leg1 mode_leg2 =
     bindE (PrepareVecsForPhiCP L p4hcandinfodict method_leg1 method_leg2 mode_leg1 mode_leg2)
       (\<lambda>phicp_input_vec_dict.
     bindE (ComputeAcopAngle phicp_input_vec_dict) (\<lambda>phicp.
     Inr (map (values_astype_float32 L) phicp)))"

section \<open>The computation at one entry\<close>

text \<open>The array operations of \<^verbatim>\<open>ComputeAcopAngle\<close> work entry by entry. These
  functions give the value of each step at one entry; the lemmas below prove that the
  arrays computed by the functions above hold these values, entry by entry.\<close>

definition signE :: "vec3 \<Rightarrow> vec3 \<Rightarrow> vec3 \<Rightarrow> vec3 \<Rightarrow> real \<Rightarrow> real" where
  "signE p1 h1 p2 h2 c1 =
     (if c1 < 0 then dot p1 (cross h2 h1) else dot p2 (cross h1 h2))"

definition flipE :: "real \<Rightarrow> npfloat \<Rightarrow> npfloat" where
  "flipE s a = (if s < 0 then frsub (2 * pi) a else a)"

definition combineYE :: "real option \<Rightarrow> real option \<Rightarrow> real option" where
  "combineYE y1 y2 =
     (case y1 of
        Some a \<Rightarrow> (case y2 of Some b \<Rightarrow> Some (a * b) | None \<Rightarrow> Some a)
      | None \<Rightarrow> y2)"

definition shiftE :: "real option \<Rightarrow> npfloat \<Rightarrow> npfloat" where
  "shiftE y a = (case y of None \<Rightarrow> a | Some v \<Rightarrow> if v < 0 then fadd a pi else a)"

definition wrapE :: "npfloat \<Rightarrow> npfloat" where
  "wrapE a =
     (let a' = (if fgt a (2 * pi) then fsub a (2 * pi) else a)
      in if flt a' 0 then fadd a' (2 * pi) else a')"

text \<open>An angle that is \<open>NaN\<close> or lies between two bounds.\<close>

definition inR :: "real \<Rightarrow> real \<Rightarrow> npfloat \<Rightarrow> bool" where
  "inR lo hi a = (case a of NaN \<Rightarrow> True | Num r \<Rightarrow> lo \<le> r \<and> r \<le> hi)"

text \<open>The ten names of the dictionary, and the exceptions of the structural check
  (the assertion and the lookups).\<close>

definition tenNames :: "string set" where
  "tenNames = {''P1'', ''R1'', ''H1'', ''C1'', ''P2'', ''R2'', ''H2'', ''C2'', ''Y1'', ''Y2''}"

fun is_structural :: "err \<Rightarrow> bool" where
  "is_structural AssertionError = True"
| "is_structural (KeyError k) = True"
| "is_structural e = False"

section \<open>An instance of the library, and inputs to run the functions on\<close>

text \<open>The theorems below hold for every library \<open>L\<close>. To run the functions on a
  concrete input, \<open>refLib\<close> gives the library functions by their textbook formulas
  in exact arithmetic (velocity \<open>p / t\<close>, invariant mass, Lorentz boost, unit vector);
  it does not round (its conversion to single precision leaves a number as it is) and
  it does not compute the a1 polarimetric vector.\<close>

definition mass2 :: "lvec \<Rightarrow> real" where
  "mass2 v = vt v * vt v - (vx v * vx v + vy v * vy v + vz v * vz v)"

definition boost :: "lvec \<Rightarrow> vec3 \<Rightarrow> lvec" where
  "boost v b =
     (case b of Vec3 bx by bz \<Rightarrow>
        let b2 = dot b b;
            gam = 1 / sqrt (1 - b2);
            bp = dot b (pvec v);
            gam2 = (if b2 = 0 then 0 else (gam - 1) / b2)
        in \<lparr>vx = vx v + gam2 * bp * bx + gam * bx * vt v,
            vy = vy v + gam2 * bp * by + gam * by * vt v,
            vz = vz v + gam2 * bp * bz + gam * bz * vt v,
            vt = gam * (vt v + bp)\<rparr>)"

definition refLib :: veclib where
  "refLib =
     \<lparr>lib_boostvec = (\<lambda>v. Vec3 (vx v / vt v) (vy v / vt v) (vz v / vt v)),
      lib_mass = (\<lambda>v. if 0 \<le> mass2 v then Num (sqrt (mass2 v)) else NaN),
      lib_mass2 = mass2,
      lib_dot4 = (\<lambda>a b. vt a * vt b - dot (pvec a) (pvec b)),
      lib_boost = boost,
      lib_unit = (\<lambda>u. smul (1 / sqrt (dot u u)) u),
      lib_divide = (\<lambda>a b. a / b),
      lib_float32 = (\<lambda>a. a),
      lib_PVC = (\<lambda>P os ss1 ss2 c. Inl LibraryError)\<rparr>"

definition mkParticle :: "real \<Rightarrow> real \<Rightarrow> real \<Rightarrow> real \<Rightarrow> real \<Rightarrow> particle" where
  "mkParticle a b c e q =
     \<lparr>p4 = \<lparr>vx = a, vy = b, vz = c, vt = e\<rparr>, charge = q, IPx = 0, IPy = 0, IPz = 0\<rparr>"

text \<open>Two taus, one along \<open>z\<close> and one along \<open>y\<close>, each with one charged pion, the
  pions back to back along \<open>x\<close>: the sum of the pions is at rest, the sum of the taus
  is not.\<close>

definition exInput :: "string \<rightharpoonup> particle list" where
  "exInput =
     [''p4h1'' \<mapsto> [mkParticle 0 0 1 2 (- 1)], ''p4h1pi'' \<mapsto> [mkParticle 1 0 0 1 (- 1)],
      ''p4h1pi0'' \<mapsto> [],
      ''p4h2'' \<mapsto> [mkParticle 0 1 0 2 1], ''p4h2pi'' \<mapsto> [mkParticle (- 1) 0 0 1 1],
      ''p4h2pi0'' \<mapsto> []]"

text \<open>Three dictionaries for \<^verbatim>\<open>ComputeAcopAngle\<close>, of one entry each: transverse
  directions back to back with a negative \<open>Y\<close>; orthogonal with a negative triple
  product and a positive \<open>Y\<close>; the same with a negative \<open>Y\<close>.\<close>

definition exBackToBack :: "string \<rightharpoonup> pyval" where
  "exBackToBack =
     vecsDict [Vec3 0 0 1] [Vec3 1 0 0] [Vec3 1 0 0] [- 1]
       [Vec3 0 0 (- 1)] [Vec3 (- 1) 0 0] [Vec3 (- 1) 0 0] [1]
       (Some [1 / 2]) (Some [- 1 / 2])"

definition exOrthogonal :: "string \<rightharpoonup> pyval" where
  "exOrthogonal =
     vecsDict [Vec3 0 0 1] [Vec3 1 0 0] [Vec3 1 0 0] [- 1]
       [Vec3 0 0 (- 1)] [Vec3 0 1 0] [Vec3 0 1 0] [1]
       (Some [1 / 2]) (Some [1 / 2])"

definition exOrthogonalShift :: "string \<rightharpoonup> pyval" where
  "exOrthogonalShift =
     vecsDict [Vec3 0 0 1] [Vec3 1 0 0] [Vec3 1 0 0] [- 1]
       [Vec3 0 0 (- 1)] [Vec3 0 1 0] [Vec3 0 1 0] [1]
       (Some [1 / 2]) (Some [- 1 / 2])"

section \<open>Arrays, entry by entry\<close>

lemma bindE_Inr: "bindE (Inr v) f = f v"
  by (simp add: bindE_def)

lemma bindE_Inr_iff:
  "bindE m f = Inr z \<longleftrightarrow> (\<exists>v. m = Inr v \<and> f v = Inr z)"
  by (cases m) (simp_all add: bindE_def)

lemma bindE_Inl_iff:
  "bindE m f = Inl e \<longleftrightarrow> m = Inl e \<or> (\<exists>v. m = Inr v \<and> f v = Inl e)"
  by (cases m) (simp_all add: bindE_def)

lemma ew2_Inr_iff:
  "ew2 f xs ys = Inr zs \<longleftrightarrow> length xs = length ys \<and> zs = map2 f xs ys"
  by (auto simp: ew2_def)

lemma ew2_nth:
  assumes "ew2 f xs ys = Inr zs"
  shows "length ys = length xs" "length zs = length xs"
    and "i < length xs \<Longrightarrow> zs ! i = f (xs ! i) (ys ! i)"
  using assms by (auto simp: ew2_def split: if_splits)

lemma ak_where_nth:
  assumes "ak_where cs xs ys = Inr zs"
  shows "length cs = length xs" "length ys = length xs" "length zs = length xs"
    and "i < length xs \<Longrightarrow> zs ! i = (if cs ! i then xs ! i else ys ! i)"
  using assms by (auto simp: ak_where_def split: if_splits)

lemma ak_where_self:
  "ak_where (map p xs) (map f xs) xs = Inr (map (\<lambda>x. if p x then f x else x) xs)"
  unfolding ak_where_def by (induction xs) auto

lemma ew2_Inl: "ew2 f xs ys = Inl e \<Longrightarrow> e = LibraryError"
  by (auto simp: ew2_def split: if_splits)

lemma ak_where_Inl: "ak_where cs xs ys = Inl e \<Longrightarrow> e = LibraryError"
  by (auto simp: ak_where_def split: if_splits)

lemma wrapStep_map: "wrapStep acop = Inr (map wrapE acop)"
  by (simp add: wrapStep_def ak_where_self bindE_Inr wrapE_def Let_def)

lemma getSign_Inr:
  assumes "getSign P1 H1 P2 H2 C1 C2 = Inr s"
  shows "length P1 = length C1" "length P2 = length C1" "length H1 = length C1"
        "length H2 = length C1" "length s = length C1"
    and "i < length C1 \<Longrightarrow> s ! i = signE (P1 ! i) (H1 ! i) (P2 ! i) (H2 ! i) (C1 ! i)"
proof -
  from assms obtain Pm Hm Hp X where
    a: "ak_where (map (\<lambda>c. c < 0) C1) P1 P2 = Inr Pm" and
    b: "ak_where (map (\<lambda>c. c < 0) C1) H1 H2 = Inr Hm" and
    c: "ak_where (map (\<lambda>c. c < 0) C1) H2 H1 = Inr Hp" and
    d: "ew2 cross Hp Hm = Inr X" and
    e: "ew2 dot Pm X = Inr s"
    by (auto simp: getSign_def bindE_Inr_iff)
  note A = ak_where_nth [OF a] and B = ak_where_nth [OF b] and C = ak_where_nth [OF c]
    and D = ew2_nth [OF d] and E = ew2_nth [OF e]
  show "length P1 = length C1" using A(1) by simp
  show "length P2 = length C1" using A(1,2) by simp
  show "length H1 = length C1" using B(1) by simp
  show "length H2 = length C1" using B(1,2) by simp
  show "length s = length C1" using E(2) A(1,3) by simp
  assume i: "i < length C1"
  have l: "i < length P1" "i < length H1" "i < length H2" "i < length Pm" "i < length Hp"
    using i A(1,3) B(1) C(1,3) by simp_all
  have "s ! i = dot (Pm ! i) (X ! i)" using E(3) l by simp
  also have "X ! i = cross (Hp ! i) (Hm ! i)" using D(3) l by simp
  finally show "s ! i = signE (P1 ! i) (H1 ! i) (P2 ! i) (H2 ! i) (C1 ! i)"
    using A(4) [of i] B(4) [of i] C(4) [of i] l i by (simp add: signE_def)
qed

lemma signStep_nth:
  assumes "signStep s acop = Inr acop'"
  shows "length s = length acop" "length acop' = length acop"
    and "i < length acop \<Longrightarrow> acop' ! i = flipE (s ! i) (acop ! i)"
proof -
  note A = ak_where_nth [OF assms [unfolded signStep_def]]
  show "length s = length acop" using A(1) by simp
  show "length acop' = length acop" using A(3) by simp
  assume "i < length acop"
  then show "acop' ! i = flipE (s ! i) (acop ! i)"
    using A(4) [of i] A(1) by (simp add: flipE_def)
qed

lemma shiftStep_nth:
  assumes "shiftStep Y acop = Inr acop'"
  shows "length acop' = length acop" "Y = Some y \<Longrightarrow> length y = length acop"
    and "i < length acop \<Longrightarrow> acop' ! i = shiftE (map_option (\<lambda>y. y ! i) Y) (acop ! i)"
proof -
  show "length acop' = length acop"
    using assms by (cases Y) (auto simp: shiftStep_def dest: ak_where_nth(3))
  show "Y = Some y \<Longrightarrow> length y = length acop"
    using assms by (auto simp: shiftStep_def dest: ak_where_nth(1))
  assume i: "i < length acop"
  show "acop' ! i = shiftE (map_option (\<lambda>y. y ! i) Y) (acop ! i)"
  proof (cases Y)
    case None
    then show ?thesis using assms by (simp add: shiftStep_def shiftE_def)
  next
    case (Some y)
    with assms have w: "ak_where (map (\<lambda>v. v < 0) y) (map (\<lambda>a. fadd a pi) acop) acop = Inr acop'"
      by (simp add: shiftStep_def)
    show ?thesis
      using ak_where_nth(4) [OF w, of i] ak_where_nth(1) [OF w] i Some
      by (simp add: shiftE_def)
  qed
qed

lemma combineY_nth:
  assumes "combineY Y1 Y2 = Inr Y"
  shows "Y1 = Some y1 \<Longrightarrow> Y2 = Some y2 \<Longrightarrow> length y2 = length y1"
    and "(\<And>y. Y1 = Some y \<Longrightarrow> i < length y) \<Longrightarrow> (\<And>y. Y2 = Some y \<Longrightarrow> i < length y) \<Longrightarrow>
         map_option (\<lambda>y. y ! i) Y = combineYE (map_option (\<lambda>y. y ! i) Y1) (map_option (\<lambda>y. y ! i) Y2)"
    and "Y1 = Some y1 \<Longrightarrow> \<exists>y. Y = Some y \<and> length y = length y1"
    and "Y2 = Some y2 \<Longrightarrow> \<exists>y. Y = Some y \<and> length y = length y2"
  using assms
  by (auto simp: combineY_def combineYE_def bindE_Inr_iff ew2_Inr_iff split: option.splits)

text \<open>When the computation before the final mapping returns, all arrays have the
  length of the result, and each entry of the result is the value computed from the
  entries at the same position.\<close>

lemma preWrap_nth:
  assumes "preWrap P1 R1 H1 C1 P2 R2 H2 C2 Y1 Y2 = Inr acop"
  shows "length R1 = length acop" "length R2 = length acop" "length C1 = length acop"
        "length P1 = length acop" "length P2 = length acop"
        "length H1 = length acop" "length H2 = length acop"
        "Y1 = Some y1 \<Longrightarrow> length y1 = length acop" "Y2 = Some y2 \<Longrightarrow> length y2 = length acop"
    and "i < length acop \<Longrightarrow>
           acop ! i =
             shiftE (combineYE (map_option (\<lambda>y. y ! i) Y1) (map_option (\<lambda>y. y ! i) Y2))
               (flipE (signE (P1 ! i) (H1 ! i) (P2 ! i) (H2 ! i) (C1 ! i))
                  (np_arccos (dot (R1 ! i) (R2 ! i))))"
proof -
  from assms obtain Y d s a where
    y: "combineY Y1 Y2 = Inr Y" and
    d: "ew2 dot R1 R2 = Inr d" and
    s: "getSign P1 H1 P2 H2 C1 C2 = Inr s" and
    a: "signStep s (map np_arccos d) = Inr a" and
    h: "shiftStep Y a = Inr acop"
    by (auto simp: preWrap_def bindE_Inr_iff)
  note D = ew2_nth [OF d] and S = getSign_Inr [OF s] and A = signStep_nth [OF a]
    and H = shiftStep_nth [OF h] and Yc = combineY_nth [OF y]
  have la: "length a = length acop" using H(1) by simp
  have ld: "length d = length acop" using A(2) la by simp
  show r1: "length R1 = length acop" using D(2) ld by simp
  show r2: "length R2 = length acop" using D(1) r1 by simp
  show c1: "length C1 = length acop" using S(5) A(1) ld by simp
  show "length P1 = length acop" using S(1) c1 by simp
  show "length P2 = length acop" using S(2) c1 by simp
  show "length H1 = length acop" using S(3) c1 by simp
  show "length H2 = length acop" using S(4) c1 by simp
  have ly: "\<And>y. Y = Some y \<Longrightarrow> length y = length acop" using H(2) la by simp
  show l1: "Y1 = Some y1 \<Longrightarrow> length y1 = length acop" for y1
    using Yc(3) [of y1] ly by auto
  show l2: "Y2 = Some y2 \<Longrightarrow> length y2 = length acop" for y2
    using Yc(4) [of y2] ly by auto
  assume i: "i < length acop"
  have "acop ! i = shiftE (map_option (\<lambda>y. y ! i) Y) (a ! i)" using H(3) i la by simp
  also have "map_option (\<lambda>y. y ! i) Y = combineYE (map_option (\<lambda>y. y ! i) Y1) (map_option (\<lambda>y. y ! i) Y2)"
    using Yc(2) l1 l2 i by simp
  also have "a ! i = flipE (s ! i) (map np_arccos d ! i)" using A(3) i ld by simp
  also have "map np_arccos d ! i = np_arccos (dot (R1 ! i) (R2 ! i))" using D(3) i ld r1 by simp
  also have "s ! i = signE (P1 ! i) (H1 ! i) (P2 ! i) (H2 ! i) (C1 ! i)" using S(6) i c1 by simp
  finally show "acop ! i =
             shiftE (combineYE (map_option (\<lambda>y. y ! i) Y1) (map_option (\<lambda>y. y ! i) Y2))
               (flipE (signE (P1 ! i) (H1 ! i) (P2 ! i) (H2 ! i) (C1 ! i))
                  (np_arccos (dot (R1 ! i) (R2 ! i))))" .
qed

section \<open>The range of the angle at one entry\<close>

lemma np_arccos_inR: "inR 0 pi (np_arccos d)"
  by (simp add: inR_def np_arccos_def arccos_lbound arccos_ubound)

lemma flipE_inR: "inR 0 pi a \<Longrightarrow> inR 0 (2 * pi) (flipE s a)"
  by (cases a) (auto simp: inR_def flipE_def)

lemma shiftE_inR: "inR 0 (2 * pi) a \<Longrightarrow> inR 0 (3 * pi) (shiftE y a)"
  using pi_ge_zero by (cases a; cases y) (auto simp: inR_def shiftE_def)

lemma wrapE_inR: "inR 0 (3 * pi) a \<Longrightarrow> inR 0 (2 * pi) (wrapE a)"
  using pi_gt_zero by (cases a) (auto simp: inR_def wrapE_def Let_def)

lemma wrapE_idem: "inR (- (2 * pi)) (4 * pi) a \<Longrightarrow> wrapE (wrapE a) = wrapE a"
  using pi_gt_zero by (cases a) (auto simp: inR_def wrapE_def Let_def)

lemma np_arccos_NaN_iff: "np_arccos d = NaN \<longleftrightarrow> d < - 1 \<or> 1 < d"
  by (auto simp: np_arccos_def)

lemma flipE_NaN_iff: "flipE s a = NaN \<longleftrightarrow> a = NaN"
  by (cases a) (auto simp: flipE_def)

lemma shiftE_NaN_iff: "shiftE y a = NaN \<longleftrightarrow> a = NaN"
  by (cases a; cases y) (auto simp: shiftE_def)

lemma wrapE_NaN_iff: "wrapE a = NaN \<longleftrightarrow> a = NaN"
  by (cases a) (auto simp: wrapE_def Let_def)

lemma preWrap_inR:
  assumes "preWrap P1 R1 H1 C1 P2 R2 H2 C2 Y1 Y2 = Inr acop" "i < length acop"
  shows "inR 0 (3 * pi) (acop ! i)"
  using preWrap_nth(10) [OF assms]
  by (simp add: shiftE_inR flipE_inR np_arccos_inR)

section \<open>The dictionary\<close>

lemma as_vecs_Inr_iff: "as_vecs v = Inr vs \<longleftrightarrow> v = VecArr vs"
  by (cases v) auto

lemma as_nums_Inr_iff: "as_nums v = Inr xs \<longleftrightarrow> v = NumArr xs"
  by (cases v) auto

lemma as_opt_nums_Inr_iff: "as_opt_nums v = Inr y \<longleftrightarrow> v = optY y"
  by (cases v; cases y) (auto simp: optY_def)

lemma as_opt_nums_optY: "as_opt_nums (optY y) = Inr y"
  by (cases y) (simp_all add: optY_def)

lemma getitem_Inr_iff: "getitem d k = Inr v \<longleftrightarrow> d k = Some v"
  by (simp add: getitem_def split: option.splits)

lemma bindE_getitem:
  "bindE (getitem d k) f = (case d k of None \<Rightarrow> Inl (KeyError k) | Some v \<Rightarrow> f v)"
  by (simp add: getitem_def bindE_def split: option.splits)

lemma ComputeAcopAngle_Inr_unpack:
  assumes "ComputeAcopAngle d = Inr out"
  shows "\<exists>p1 r1 h1 c1 p2 r2 h2 C2 y1 y2 acop.
           d ''P1'' = Some (VecArr p1) \<and> d ''R1'' = Some (VecArr r1) \<and>
           d ''H1'' = Some (VecArr h1) \<and> d ''C1'' = Some (NumArr c1) \<and>
           d ''P2'' = Some (VecArr p2) \<and> d ''R2'' = Some (VecArr r2) \<and>
           d ''H2'' = Some (VecArr h2) \<and> d ''C2'' = Some C2 \<and>
           d ''Y1'' = Some (optY y1) \<and> d ''Y2'' = Some (optY y2) \<and>
           card (dom d) = 10 \<and>
           preWrap p1 r1 h1 c1 p2 r2 h2 C2 y1 y2 = Inr acop \<and> out = map wrapE acop"
proof -
  have c: "card (dom d) = 10"
    using assms by (auto simp: ComputeAcopAngle_def split: if_splits)
  then show ?thesis
    using assms
    by (simp add: ComputeAcopAngle_def bindE_Inr_iff getitem_Inr_iff as_vecs_Inr_iff
        as_nums_Inr_iff as_opt_nums_Inr_iff wrapStep_map) blast
qed

lemma dom_vecsDict: "dom (vecsDict P1 R1 H1 C1 P2 R2 H2 C2 Y1 Y2) = tenNames"
  by (auto simp: vecsDict_def tenNames_def)

lemma card_tenNames: "card tenNames = 10"
  by (simp add: tenNames_def)

lemma vecsDict_lookup:
  "vecsDict P1 R1 H1 C1 P2 R2 H2 C2 Y1 Y2 ''P1'' = Some (VecArr P1)"
  "vecsDict P1 R1 H1 C1 P2 R2 H2 C2 Y1 Y2 ''R1'' = Some (VecArr R1)"
  "vecsDict P1 R1 H1 C1 P2 R2 H2 C2 Y1 Y2 ''H1'' = Some (VecArr H1)"
  "vecsDict P1 R1 H1 C1 P2 R2 H2 C2 Y1 Y2 ''C1'' = Some (NumArr C1)"
  "vecsDict P1 R1 H1 C1 P2 R2 H2 C2 Y1 Y2 ''P2'' = Some (VecArr P2)"
  "vecsDict P1 R1 H1 C1 P2 R2 H2 C2 Y1 Y2 ''R2'' = Some (VecArr R2)"
  "vecsDict P1 R1 H1 C1 P2 R2 H2 C2 Y1 Y2 ''H2'' = Some (VecArr H2)"
  "vecsDict P1 R1 H1 C1 P2 R2 H2 C2 Y1 Y2 ''C2'' = Some (NumArr C2)"
  "vecsDict P1 R1 H1 C1 P2 R2 H2 C2 Y1 Y2 ''Y1'' = Some (optY Y1)"
  "vecsDict P1 R1 H1 C1 P2 R2 H2 C2 Y1 Y2 ''Y2'' = Some (optY Y2)"
  by (simp_all add: vecsDict_def)

text \<open>On the dictionary that \<^verbatim>\<open>PrepareVecsForPhiCP\<close> builds, the structural check
  passes and the computation runs.\<close>

lemma ComputeAcopAngle_vecsDict:
  "ComputeAcopAngle (vecsDict P1 R1 H1 C1 P2 R2 H2 C2 Y1 Y2) =
     bindE (preWrap P1 R1 H1 C1 P2 R2 H2 (NumArr C2) Y1 Y2) wrapStep"
  unfolding ComputeAcopAngle_def
  by (simp add: dom_vecsDict card_tenNames getitem_def vecsDict_lookup bindE_Inr as_opt_nums_optY)

section \<open>The functions on the example inputs\<close>

lemmas eval_defs = preWrap_def combineY_def getSign_def signStep_def
      shiftStep_def wrapStep_def ew2_def ak_where_def bindE_def np_arccos_def

lemma preWrap_exBackToBack:
  "preWrap [Vec3 0 0 1] [Vec3 1 0 0] [Vec3 1 0 0] [- 1]
       [Vec3 0 0 (- 1)] [Vec3 (- 1) 0 0] [Vec3 (- 1) 0 0] (NumArr [1])
       (Some [1 / 2]) (Some [- 1 / 2]) = Inr [Num (2 * pi)]"
  by (simp add: eval_defs)

lemma preWrap_exOrthogonal:
  "preWrap [Vec3 0 0 1] [Vec3 1 0 0] [Vec3 1 0 0] [- 1]
       [Vec3 0 0 (- 1)] [Vec3 0 1 0] [Vec3 0 1 0] (NumArr [1])
       (Some [1 / 2]) (Some [1 / 2]) = Inr [Num (3 * pi / 2)]"
  by (simp add: eval_defs)

lemma preWrap_exOrthogonalShift:
  "preWrap [Vec3 0 0 1] [Vec3 1 0 0] [Vec3 1 0 0] [- 1]
       [Vec3 0 0 (- 1)] [Vec3 0 1 0] [Vec3 0 1 0] (NumArr [1])
       (Some [1 / 2]) (Some [- 1 / 2]) = Inr [Num (5 * pi / 2)]"
  by (simp add: eval_defs)

lemma exBackToBack_eval: "ComputeAcopAngle exBackToBack = Inr [Num (2 * pi)]"
  unfolding exBackToBack_def ComputeAcopAngle_vecsDict preWrap_exBackToBack bindE_Inr wrapStep_map
  using pi_gt_zero by (simp add: wrapE_def Let_def)

lemma exOrthogonal_eval: "ComputeAcopAngle exOrthogonal = Inr [Num (3 * pi / 2)]"
  unfolding exOrthogonal_def ComputeAcopAngle_vecsDict preWrap_exOrthogonal bindE_Inr wrapStep_map
  using pi_gt_zero by (simp add: wrapE_def Let_def)

lemma exOrthogonalShift_eval: "ComputeAcopAngle exOrthogonalShift = Inr [Num (pi / 2)]"
  unfolding exOrthogonalShift_def ComputeAcopAngle_vecsDict preWrap_exOrthogonalShift bindE_Inr wrapStep_map
  using pi_gt_zero by (simp add: wrapE_def Let_def)

lemma getSign_same_sign:
  "getSign [Vec3 0 0 1] [Vec3 1 0 0] [Vec3 0 0 (- 1)] [Vec3 0 1 0] [0] PyNone = Inr [- 1]"
  by (simp add: eval_defs)

section \<open>The selection of the vectors\<close>

lemma slice_three:
  assumes "length xs = 3"
  shows "slice 0 1 xs = [xs ! 0]" "slice 1 2 xs = [xs ! 1]" "slice 2 3 xs = [xs ! 2]"
proof -
  from assms obtain a b c where "xs = [a, b, c]"
    by (cases xs; cases "tl xs"; cases "tl (tl xs)") auto
  then show "slice 0 1 xs = [xs ! 0]" "slice 1 2 xs = [xs ! 1]" "slice 2 3 xs = [xs ! 2]"
    by (simp_all add: slice_def)
qed

lemma get_pi_a1_DP_three:
  assumes "length p4_pi = 3"
  shows "get_pi_a1_DP L p4_pi =
           Inr [if absdiff_less (lib_mass L (ladd (p4 (p4_pi ! 0)) (p4 (p4_pi ! 1))))
                     (lib_mass L (ladd (p4 (p4_pi ! 0)) (p4 (p4_pi ! 2))))
                then p4_pi ! 1 else p4_pi ! 2]"
  unfolding get_pi_a1_DP_def slice_three [OF assms]
  by (simp add: ew2_def ak_where_def bindE_def)

lemma sqrt_9_16: "sqrt (9 / 16) = 3 / 4"
  by (rule real_sqrt_unique) (simp_all add: power2_eq_square)

text \<open>C7. For the method DP and the mode a1, on an event with exactly three charged
  pions, \<^verbatim>\<open>_prepareVecs\<close> returns pion 0 as \<open>R\<close>, and as \<open>P\<close> pion 1 when the
  invariant mass of pions 0 and 1 is strictly closer to 0.77526 than the invariant
  mass of pions 0 and 2, and pion 2 otherwise.\<close>

theorem prepareVecs_DP_a1:
  assumes "length hcand_pi = 3"
    and "lib_mass L (ladd (p4 (hcand_pi ! 0)) (p4 (hcand_pi ! 1))) = Num m1"
    and "lib_mass L (ladd (p4 (hcand_pi ! 0)) (p4 (hcand_pi ! 2))) = Num m2"
  shows "prepareVecs L hcand hcand_pi hcand_pi0 ''DP'' ''a1'' =
           Inr (Some [if \<bar>77526 / 100000 - m1\<bar> < \<bar>77526 / 100000 - m2\<bar>
                      then hcand_pi ! 1 else hcand_pi ! 2],
                Some [hcand_pi ! 0], map charge hcand)"
  using assms(2,3)
  unfolding prepareVecs_def get_pi_a1_DP_three [OF assms(1)] slice_three [OF assms(1)]
  by (simp add: bindE_def)

theorem prepareVecs_DP_a1_witness:
  "length [mkParticle 0 0 0 (2 / 5) (- 1), mkParticle 0 0 0 (7 / 20) 1, mkParticle 0 0 0 (3 / 5) 1] = 3 \<and>
   lib_mass refLib (ladd (p4 (mkParticle 0 0 0 (2 / 5) (- 1))) (p4 (mkParticle 0 0 0 (7 / 20) 1))) = Num (3 / 4) \<and>
   lib_mass refLib (ladd (p4 (mkParticle 0 0 0 (2 / 5) (- 1))) (p4 (mkParticle 0 0 0 (3 / 5) 1))) = Num 1 \<and>
   prepareVecs refLib [mkParticle 0 0 0 2 1]
     [mkParticle 0 0 0 (2 / 5) (- 1), mkParticle 0 0 0 (7 / 20) 1, mkParticle 0 0 0 (3 / 5) 1]
     [] ''DP'' ''a1'' =
     Inr (Some [mkParticle 0 0 0 (7 / 20) 1], Some [mkParticle 0 0 0 (2 / 5) (- 1)], [1])"
proof -
  have m1: "lib_mass refLib (ladd (p4 (mkParticle 0 0 0 (2 / 5) (- 1))) (p4 (mkParticle 0 0 0 (7 / 20) 1))) = Num (3 / 4)"
    by (simp add: refLib_def mass2_def ladd_def mkParticle_def sqrt_9_16)
  have m2: "lib_mass refLib (ladd (p4 (mkParticle 0 0 0 (2 / 5) (- 1))) (p4 (mkParticle 0 0 0 (3 / 5) 1))) = Num 1"
    by (simp add: refLib_def mass2_def ladd_def mkParticle_def)
  show ?thesis
    using prepareVecs_DP_a1 [of "[mkParticle 0 0 0 (2 / 5) (- 1), mkParticle 0 0 0 (7 / 20) 1, mkParticle 0 0 0 (3 / 5) 1]"
        refLib "3 / 4" 1 "[mkParticle 0 0 0 2 1]" "[]"] m1 m2
    by (simp add: mkParticle_def)
qed

text \<open>The modes that each method accepts in \<^verbatim>\<open>_prepareVecs\<close> and \<^verbatim>\<open>_pv\<close>: the
  method DP raises on a mode other than rho and a1, the method PV takes every mode in
  \<^verbatim>\<open>_prepareVecs\<close> and raises in \<^verbatim>\<open>_pv\<close> on a mode other than pi, rho and a1,
  and a method other than DP, PV and IP raises.\<close>

lemma prepareVecs_DP_other:
  assumes "leg_mode \<noteq> ''rho''" "leg_mode \<noteq> ''a1''"
  shows "prepareVecs L hcand hcand_pi hcand_pi0 ''DP'' leg_mode =
           Inl (RuntimeError (''Wrong mode : '' @ leg_mode))"
  using assms by (simp add: prepareVecs_def bindE_def)

lemma prepareVecs_other_method:
  assumes "leg_method \<noteq> ''DP''" "leg_method \<noteq> ''PV''" "leg_method \<noteq> ''IP''"
  shows "prepareVecs L hcand hcand_pi hcand_pi0 leg_method leg_mode =
           Inl (RuntimeError (''Wrong '' @ leg_method))"
  using assms by (simp add: prepareVecs_def bindE_def)

lemma prepareVecs_PV:
  "prepareVecs L hcand hcand_pi hcand_pi0 ''PV'' leg_mode =
     Inr (Some hcand, Some hcand_pi, map charge hcand)"
  by (simp add: prepareVecs_def bindE_def)

lemma pv_other:
  assumes "leg_mode \<noteq> ''pi''" "leg_mode \<noteq> ''rho''" "leg_mode \<noteq> ''a1''"
    and "boostA L boostv tau = Inr P"
  shows "pv L boostv tau pions pi0 leg_mode = Inl (RuntimeError (''Wrong mode: '' @ leg_mode))"
  using assms by (simp add: pv_def bindE_def)

lemma prepareVecs_IP_other:
  assumes "leg_mode \<noteq> ''e''" "leg_mode \<noteq> ''mu''" "leg_mode \<noteq> ''pi''"
  shows "prepareVecs L hcand hcand_pi hcand_pi0 ''IP'' leg_mode =
           Inr (None, None, map charge hcand)"
  using assms by (simp add: prepareVecs_def bindE_def)

text \<open>C3. A pair of method and mode outside the table is expected to fail with an
  error at the selection or at the restructuring, and never to return \<^verbatim>\<open>None\<close>
  silently. For the method IP with the mode rho (and a1 likewise, by
  \<open>prepareVecs_IP_other\<close>), \<^verbatim>\<open>_prepareVecs\<close> raises nothing and returns
  \<^verbatim>\<open>None\<close> for both vectors.\<close>

theorem prepareVecs_IP_rho_returns_None:
  "prepareVecs L hcand hcand_pi hcand_pi0 ''IP'' ''rho'' = Inr (None, None, map charge hcand)"
  by (simp add: prepareVecs_def bindE_def)

text \<open>With that result the call goes on to \<^verbatim>\<open>_getBoost\<close>, where \<^verbatim>\<open>None\<close> is
  added to an array.\<close>

lemma PrepareVecsForPhiCP_IP_rho:
  assumes "h ''p4h1'' = Some a1" "h ''p4h1pi'' = Some a2" "h ''p4h1pi0'' = Some a3"
    "h ''p4h2'' = Some b1" "h ''p4h2pi'' = Some b2" "h ''p4h2pi0'' = Some b3"
  shows "PrepareVecsForPhiCP L h ''IP'' ''PV'' ''rho'' mode_leg2 = Inl LibraryError"
  using assms
  by (simp add: PrepareVecsForPhiCP_def getitem_def bindE_Inr prepareVecs_PV
      prepareVecs_IP_other getBoost_def addA_def bindE_def)

section \<open>The frame\<close>

lemmas run_defs = PrepareVecsForPhiCP_def exInput_def getitem_def prepareVecs_def getBoost_def
  addA_def reStructureVecs_def pv_def boostA_def refLib_def boost_def mkParticle_def ladd_def
  pvec_def ew2_def bindE_def

lemma PrepareVecsForPhiCP_exInput:
  "PrepareVecsForPhiCP refLib exInput ''PV'' ''PV'' ''pi'' ''pi'' =
     Inr (vecsDict [Vec3 0 0 1] [Vec3 0 (- 1) 0] [Vec3 1 0 0] [- 1]
            [Vec3 0 1 0] [Vec3 0 0 (- 1)] [Vec3 (- 1) 0 0] [1] None None)"
  by (simp add: run_defs)

lemma GetPhiCP_exInput:
  "GetPhiCP refLib exInput ''PV'' ''PV'' ''pi'' ''pi'' = Inr [Num (pi / 2)]"
proof -
  have "ComputeAcopAngle (vecsDict [Vec3 0 0 1] [Vec3 0 (- 1) 0] [Vec3 1 0 0] [- 1]
            [Vec3 0 1 0] [Vec3 0 0 (- 1)] [Vec3 (- 1) 0 0] [1] None None) = Inr [Num (pi / 2)]"
    unfolding ComputeAcopAngle_vecsDict using pi_gt_zero by (simp add: eval_defs)
  then show ?thesis
    unfolding GetPhiCP_def PrepareVecsForPhiCP_exInput bindE_Inr
    by (simp add: refLib_def bindE_Inr)
qed

lemma exInput_lookup:
  "exInput ''p4h1'' = Some [mkParticle 0 0 1 2 (- 1)]"
  "exInput ''p4h1pi'' = Some [mkParticle 1 0 0 1 (- 1)]"
  "exInput ''p4h1pi0'' = Some []"
  "exInput ''p4h2'' = Some [mkParticle 0 1 0 2 1]"
  "exInput ''p4h2pi'' = Some [mkParticle (- 1) 0 0 1 1]"
  "exInput ''p4h2pi0'' = Some []"
  by (simp_all add: exInput_def)

text \<open>The frame of \<^verbatim>\<open>_getBoost\<close>, component by component: the sum of two arrays
  of particles is the array of the sums of their Lorentz vectors.\<close>

lemma addA_Some:
  "addA (Some a) (Some b) =
     (if length a = length b
      then Inr (map2 (\<lambda>u v. \<lparr>vx = vx (p4 u) + vx (p4 v), vy = vy (p4 u) + vy (p4 v),
                               vz = vz (p4 u) + vz (p4 v), vt = vt (p4 u) + vt (p4 v)\<rparr>) a b)
      else Inl LibraryError)"
  by (simp add: addA_def ew2_def ladd_def)

text \<open>C4. \<^verbatim>\<open>_getBoost\<close> returns the boost vector of the sum \<open>R1 + R2\<close> when both
  methods are PV and both modes are pi, and the boost vector of the sum \<open>P1 + P2\<close> for
  every other combination of methods and modes; the sum is taken entry by entry and
  component by component. \<^verbatim>\<open>PrepareVecsForPhiCP\<close> computes the boost vector once:
  when it returns, the vectors of both legs were restructured with the same boost
  vector.\<close>

theorem getBoost_frame:
  "(leg1_method = ''PV'' \<and> leg2_method = ''PV'' \<and> leg1_mode = ''pi'' \<and> leg2_mode = ''pi'' \<longrightarrow>
      getBoost L P1 (Some r1) P2 (Some r2) leg1_method leg2_method leg1_mode leg2_mode =
        (if length r1 = length r2
         then Inr (map2 (\<lambda>u v. lib_boostvec L
                      \<lparr>vx = vx (p4 u) + vx (p4 v), vy = vy (p4 u) + vy (p4 v),
                       vz = vz (p4 u) + vz (p4 v), vt = vt (p4 u) + vt (p4 v)\<rparr>) r1 r2)
         else Inl LibraryError)) \<and>
   (\<not> (leg1_method = ''PV'' \<and> leg2_method = ''PV'' \<and> leg1_mode = ''pi'' \<and> leg2_mode = ''pi'') \<longrightarrow>
      getBoost L (Some p1) R1 (Some p2) R2 leg1_method leg2_method leg1_mode leg2_mode =
        (if length p1 = length p2
         then Inr (map2 (\<lambda>u v. lib_boostvec L
                      \<lparr>vx = vx (p4 u) + vx (p4 v), vy = vy (p4 u) + vy (p4 v),
                       vz = vz (p4 u) + vz (p4 v), vt = vt (p4 u) + vt (p4 v)\<rparr>) p1 p2)
         else Inl LibraryError)) \<and>
   (PrepareVecsForPhiCP L h leg1_method leg2_method leg1_mode leg2_mode = Inr vd \<longrightarrow>
     (\<exists>p4h1 p4h1pi p4h1pi0 p4h2 p4h2pi p4h2pi0 P1' R1' C1 P2' R2' C2 boostv
         P1 R1 H1 Y1 P2 R2 H2 Y2.
        h ''p4h1'' = Some p4h1 \<and> h ''p4h1pi'' = Some p4h1pi \<and> h ''p4h1pi0'' = Some p4h1pi0 \<and>
        h ''p4h2'' = Some p4h2 \<and> h ''p4h2pi'' = Some p4h2pi \<and> h ''p4h2pi0'' = Some p4h2pi0 \<and>
        prepareVecs L p4h1 p4h1pi p4h1pi0 leg1_method leg1_mode = Inr (P1', R1', C1) \<and>
        prepareVecs L p4h2 p4h2pi p4h2pi0 leg2_method leg2_mode = Inr (P2', R2', C2) \<and>
        getBoost L P1' R1' P2' R2' leg1_method leg2_method leg1_mode leg2_mode = Inr boostv \<and>
        reStructureVecs L boostv P1' R1' p4h1pi0 leg1_method leg1_mode = Inr (P1, R1, H1, Y1) \<and>
        reStructureVecs L boostv P2' R2' p4h2pi0 leg2_method leg2_mode = Inr (P2, R2, H2, Y2) \<and>
        vd = vecsDict P1 R1 H1 C1 P2 R2 H2 C2 Y1 Y2))"
proof (intro conjI impI)
  assume "leg1_method = ''PV'' \<and> leg2_method = ''PV'' \<and> leg1_mode = ''pi'' \<and> leg2_mode = ''pi''"
  then show "getBoost L P1 (Some r1) P2 (Some r2) leg1_method leg2_method leg1_mode leg2_mode =
        (if length r1 = length r2
         then Inr (map2 (\<lambda>u v. lib_boostvec L
                      \<lparr>vx = vx (p4 u) + vx (p4 v), vy = vy (p4 u) + vy (p4 v),
                       vz = vz (p4 u) + vz (p4 v), vt = vt (p4 u) + vt (p4 v)\<rparr>) r1 r2)
         else Inl LibraryError)"
    by (auto simp: getBoost_def addA_Some bindE_def)
next
  assume "\<not> (leg1_method = ''PV'' \<and> leg2_method = ''PV'' \<and> leg1_mode = ''pi'' \<and> leg2_mode = ''pi'')"
  then show "getBoost L (Some p1) R1 (Some p2) R2 leg1_method leg2_method leg1_mode leg2_mode =
        (if length p1 = length p2
         then Inr (map2 (\<lambda>u v. lib_boostvec L
                      \<lparr>vx = vx (p4 u) + vx (p4 v), vy = vy (p4 u) + vy (p4 v),
                       vz = vz (p4 u) + vz (p4 v), vt = vt (p4 u) + vt (p4 v)\<rparr>) p1 p2)
         else Inl LibraryError)"
    by (auto simp: getBoost_def addA_Some bindE_def)
next
  assume "PrepareVecsForPhiCP L h leg1_method leg2_method leg1_mode leg2_mode = Inr vd"
  then show "\<exists>p4h1 p4h1pi p4h1pi0 p4h2 p4h2pi p4h2pi0 P1' R1' C1 P2' R2' C2 boostv
         P1 R1 H1 Y1 P2 R2 H2 Y2.
        h ''p4h1'' = Some p4h1 \<and> h ''p4h1pi'' = Some p4h1pi \<and> h ''p4h1pi0'' = Some p4h1pi0 \<and>
        h ''p4h2'' = Some p4h2 \<and> h ''p4h2pi'' = Some p4h2pi \<and> h ''p4h2pi0'' = Some p4h2pi0 \<and>
        prepareVecs L p4h1 p4h1pi p4h1pi0 leg1_method leg1_mode = Inr (P1', R1', C1) \<and>
        prepareVecs L p4h2 p4h2pi p4h2pi0 leg2_method leg2_mode = Inr (P2', R2', C2) \<and>
        getBoost L P1' R1' P2' R2' leg1_method leg2_method leg1_mode leg2_mode = Inr boostv \<and>
        reStructureVecs L boostv P1' R1' p4h1pi0 leg1_method leg1_mode = Inr (P1, R1, H1, Y1) \<and>
        reStructureVecs L boostv P2' R2' p4h2pi0 leg2_method leg2_mode = Inr (P2, R2, H2, Y2) \<and>
        vd = vecsDict P1 R1 H1 C1 P2 R2 H2 C2 Y1 Y2"
    unfolding PrepareVecsForPhiCP_def
    by (auto simp: bindE_Inr_iff getitem_Inr_iff)
qed

text \<open>On the example input the two sums differ: the pions are at rest together, the
  taus move together with the velocity \<open>(0, 1/4, 1/4)\<close>.\<close>

theorem getBoost_frame_witness:
  "getBoost refLib (Some [mkParticle 0 0 1 2 (- 1)]) (Some [mkParticle 1 0 0 1 (- 1)])
     (Some [mkParticle 0 1 0 2 1]) (Some [mkParticle (- 1) 0 0 1 1])
     ''PV'' ''PV'' ''pi'' ''pi'' = Inr [Vec3 0 0 0] \<and>
   getBoost refLib (Some [mkParticle 0 0 1 2 (- 1)]) (Some [mkParticle 1 0 0 1 (- 1)])
     (Some [mkParticle 0 1 0 2 1]) (Some [mkParticle (- 1) 0 0 1 1])
     ''PV'' ''PV'' ''pi'' ''rho'' = Inr [Vec3 0 (1 / 4) (1 / 4)] \<and>
   getBoost refLib (Some [mkParticle 0 0 1 2 (- 1)]) (Some [mkParticle 1 0 0 1 (- 1)])
     (Some [mkParticle 0 1 0 2 1]) (Some [mkParticle (- 1) 0 0 1 1])
     ''IP'' ''PV'' ''pi'' ''pi'' = Inr [Vec3 0 (1 / 4) (1 / 4)] \<and>
   PrepareVecsForPhiCP refLib exInput ''PV'' ''PV'' ''pi'' ''pi'' =
     Inr (vecsDict [Vec3 0 0 1] [Vec3 0 (- 1) 0] [Vec3 1 0 0] [- 1]
            [Vec3 0 1 0] [Vec3 0 0 (- 1)] [Vec3 (- 1) 0 0] [1] None None) \<and>
   (\<exists>P1 R1 H1 Y1 P2 R2 H2 Y2.
      reStructureVecs refLib [Vec3 0 0 0] (Some [mkParticle 0 0 1 2 (- 1)])
        (Some [mkParticle 1 0 0 1 (- 1)]) [] ''PV'' ''pi'' = Inr (P1, R1, H1, Y1) \<and>
      reStructureVecs refLib [Vec3 0 0 0] (Some [mkParticle 0 1 0 2 1])
        (Some [mkParticle (- 1) 0 0 1 1]) [] ''PV'' ''pi'' = Inr (P2, R2, H2, Y2))"
proof -
  note T = getBoost_frame [where L = refLib and h = exInput
      and ?P1.0 = "Some [mkParticle 0 0 1 2 (- 1)]" and ?p1.0 = "[mkParticle 0 0 1 2 (- 1)]"
      and ?R1.0 = "Some [mkParticle 1 0 0 1 (- 1)]" and ?r1.0 = "[mkParticle 1 0 0 1 (- 1)]"
      and ?P2.0 = "Some [mkParticle 0 1 0 2 1]" and ?p2.0 = "[mkParticle 0 1 0 2 1]"
      and ?R2.0 = "Some [mkParticle (- 1) 0 0 1 1]" and ?r2.0 = "[mkParticle (- 1) 0 0 1 1]"]
  have a: "getBoost refLib (Some [mkParticle 0 0 1 2 (- 1)]) (Some [mkParticle 1 0 0 1 (- 1)])
     (Some [mkParticle 0 1 0 2 1]) (Some [mkParticle (- 1) 0 0 1 1])
     ''PV'' ''PV'' ''pi'' ''pi'' = Inr [Vec3 0 0 0]"
    using T [where leg1_method = "''PV''" and leg2_method = "''PV''"
        and leg1_mode = "''pi''" and leg2_mode = "''pi''", THEN conjunct1]
    by (simp add: refLib_def mkParticle_def)
  have b: "getBoost refLib (Some [mkParticle 0 0 1 2 (- 1)]) (Some [mkParticle 1 0 0 1 (- 1)])
     (Some [mkParticle 0 1 0 2 1]) (Some [mkParticle (- 1) 0 0 1 1])
     ''PV'' ''PV'' ''pi'' ''rho'' = Inr [Vec3 0 (1 / 4) (1 / 4)]"
    using T [where leg1_method = "''PV''" and leg2_method = "''PV''"
        and leg1_mode = "''pi''" and leg2_mode = "''rho''", THEN conjunct2, THEN conjunct1]
    by (simp add: refLib_def mkParticle_def)
  have c: "getBoost refLib (Some [mkParticle 0 0 1 2 (- 1)]) (Some [mkParticle 1 0 0 1 (- 1)])
     (Some [mkParticle 0 1 0 2 1]) (Some [mkParticle (- 1) 0 0 1 1])
     ''IP'' ''PV'' ''pi'' ''pi'' = Inr [Vec3 0 (1 / 4) (1 / 4)]"
    using T [where leg1_method = "''IP''" and leg2_method = "''PV''"
        and leg1_mode = "''pi''" and leg2_mode = "''pi''", THEN conjunct2, THEN conjunct1]
    by (simp add: refLib_def mkParticle_def)
  from T [where leg1_method = "''PV''" and leg2_method = "''PV''"
        and leg1_mode = "''pi''" and leg2_mode = "''pi''", THEN conjunct2, THEN conjunct2,
        rule_format, OF PrepareVecsForPhiCP_exInput]
  obtain boostv P1 R1 H1 Y1 P2 R2 H2 Y2 where
    g: "getBoost refLib (Some [mkParticle 0 0 1 2 (- 1)]) (Some [mkParticle 1 0 0 1 (- 1)])
          (Some [mkParticle 0 1 0 2 1]) (Some [mkParticle (- 1) 0 0 1 1])
          ''PV'' ''PV'' ''pi'' ''pi'' = Inr boostv" and
    r1: "reStructureVecs refLib boostv (Some [mkParticle 0 0 1 2 (- 1)])
          (Some [mkParticle 1 0 0 1 (- 1)]) [] ''PV'' ''pi'' = Inr (P1, R1, H1, Y1)" and
    r2: "reStructureVecs refLib boostv (Some [mkParticle 0 1 0 2 1])
          (Some [mkParticle (- 1) 0 0 1 1]) [] ''PV'' ''pi'' = Inr (P2, R2, H2, Y2)"
    by (auto simp: exInput_lookup prepareVecs_PV)
  from g a have "boostv = [Vec3 0 0 0]" by simp
  with r1 r2 show ?thesis
    using a b c PrepareVecsForPhiCP_exInput by blast
qed

section \<open>The range of the angle\<close>

lemma ComputeAcopAngle_inR:
  assumes "ComputeAcopAngle d = Inr out" and "a \<in> set out"
  shows "inR 0 (2 * pi) a"
proof -
  from ComputeAcopAngle_Inr_unpack [OF assms(1)]
  obtain p1 r1 h1 c1 p2 r2 h2 C2 y1 y2 acop where
    pw: "preWrap p1 r1 h1 c1 p2 r2 h2 C2 y1 y2 = Inr acop" and out: "out = map wrapE acop"
    by auto
  from assms(2) out obtain i where i: "i < length acop" and a: "a = wrapE (acop ! i)"
    by (auto simp: in_set_conv_nth)
  show ?thesis using preWrap_inR [OF pw i] a by (simp add: wrapE_inR)
qed

text \<open>C1. An angle returned by \<^verbatim>\<open>ComputeAcopAngle\<close> is \<open>NaN\<close> when the dot product
  \<open>R1 \<cdot> R2\<close> of its entry lies outside \<open>[-1, 1]\<close>, and a number of the closed
  interval \<open>[0, 2\<pi>]\<close> when it lies inside. The interval is closed: the final mapping
  subtracts \<open>2\<pi>\<close> from a value strictly above \<open>2\<pi>\<close> only (the comment of the source
  names the interval \<^verbatim>\<open>[0,2pi]\<close>), so \<open>2\<pi>\<close> itself is returned, for instance when
  the transverse directions are back to back, the triple product is not negative and
  \<open>Y < 0\<close>; the half-open interval \<open>[0, 2\<pi>)\<close> does not hold. An angle returned by
  \<^verbatim>\<open>GetPhiCP\<close> is \<open>NaN\<close> or the conversion to single precision of a number of
  \<open>[0, 2\<pi>]\<close>; nothing bounds the converted number itself.\<close>

theorem ComputeAcopAngle_closed_range:
  "(ComputeAcopAngle d = Inr out \<and> i < length out \<and>
    d ''R1'' = Some (VecArr R1) \<and> d ''R2'' = Some (VecArr R2) \<longrightarrow>
      (out ! i = NaN \<and> (dot (R1 ! i) (R2 ! i) < - 1 \<or> 1 < dot (R1 ! i) (R2 ! i))) \<or>
      (\<exists>r. out ! i = Num r \<and> 0 \<le> r \<and> r \<le> 2 * pi \<and>
           - 1 \<le> dot (R1 ! i) (R2 ! i) \<and> dot (R1 ! i) (R2 ! i) \<le> 1)) \<and>
   (GetPhiCP L h m1 m2 d1 d2 = Inr phicp \<and> j < length phicp \<longrightarrow>
      phicp ! j = NaN \<or> (\<exists>r. 0 \<le> r \<and> r \<le> 2 * pi \<and> phicp ! j = Num (lib_float32 L r)))"
proof (intro conjI impI)
  assume "ComputeAcopAngle d = Inr out \<and> i < length out \<and>
    d ''R1'' = Some (VecArr R1) \<and> d ''R2'' = Some (VecArr R2)"
  then have c: "ComputeAcopAngle d = Inr out" and i: "i < length out"
    and r1: "d ''R1'' = Some (VecArr R1)" and r2: "d ''R2'' = Some (VecArr R2)"
    by simp_all
  from ComputeAcopAngle_Inr_unpack [OF c] r1 r2
  obtain p1 h1 c1 p2 h2 C2 y1 y2 acop where
    pw: "preWrap p1 R1 h1 c1 p2 R2 h2 C2 y1 y2 = Inr acop" and out: "out = map wrapE acop"
    by auto
  have ia: "i < length acop" using i out by simp
  have rng: "inR 0 (2 * pi) (out ! i)"
    using ComputeAcopAngle_inR [OF c, of "out ! i"] i by simp
  have nan: "(out ! i = NaN) = (dot (R1 ! i) (R2 ! i) < - 1 \<or> 1 < dot (R1 ! i) (R2 ! i))"
    using preWrap_nth(10) [OF pw ia] ia out
    by (simp add: wrapE_NaN_iff shiftE_NaN_iff flipE_NaN_iff np_arccos_NaN_iff)
  show "(out ! i = NaN \<and> (dot (R1 ! i) (R2 ! i) < - 1 \<or> 1 < dot (R1 ! i) (R2 ! i))) \<or>
      (\<exists>r. out ! i = Num r \<and> 0 \<le> r \<and> r \<le> 2 * pi \<and>
           - 1 \<le> dot (R1 ! i) (R2 ! i) \<and> dot (R1 ! i) (R2 ! i) \<le> 1)"
  proof (cases "out ! i")
    case NaN
    then show ?thesis using nan by simp
  next
    case (Num r)
    then have "0 \<le> r \<and> r \<le> 2 * pi" using rng by (simp add: inR_def)
    moreover have "- 1 \<le> dot (R1 ! i) (R2 ! i) \<and> dot (R1 ! i) (R2 ! i) \<le> 1"
      using nan Num by auto
    ultimately show ?thesis using Num by simp
  qed
next
  assume "GetPhiCP L h m1 m2 d1 d2 = Inr phicp \<and> j < length phicp"
  then obtain vd out where c: "ComputeAcopAngle vd = Inr out"
    and p: "phicp = map (values_astype_float32 L) out" and j: "j < length out"
    by (auto simp: GetPhiCP_def bindE_Inr_iff)
  have rng: "inR 0 (2 * pi) (out ! j)"
    using ComputeAcopAngle_inR [OF c, of "out ! j"] j by simp
  show "phicp ! j = NaN \<or> (\<exists>r. 0 \<le> r \<and> r \<le> 2 * pi \<and> phicp ! j = Num (lib_float32 L r))"
  proof (cases "out ! j")
    case NaN
    then show ?thesis using p j by simp
  next
    case (Num r)
    then have "0 \<le> r \<and> r \<le> 2 * pi" using rng by (simp add: inR_def)
    then show ?thesis using p j Num by auto
  qed
qed

theorem ComputeAcopAngle_closed_range_witness:
  "ComputeAcopAngle exBackToBack = Inr [Num (2 * pi)] \<and>
   exBackToBack ''R1'' = Some (VecArr [Vec3 1 0 0]) \<and>
   exBackToBack ''R2'' = Some (VecArr [Vec3 (- 1) 0 0]) \<and>
   (\<exists>r. [Num (2 * pi)] ! 0 = Num r \<and> 0 \<le> r \<and> r \<le> 2 * pi \<and>
        - 1 \<le> dot (Vec3 1 0 0) (Vec3 (- 1) 0 0) \<and> dot (Vec3 1 0 0) (Vec3 (- 1) 0 0) \<le> 1) \<and>
   GetPhiCP refLib exInput ''PV'' ''PV'' ''pi'' ''pi'' = Inr [Num (pi / 2)] \<and>
   (\<exists>r. 0 \<le> r \<and> r \<le> 2 * pi \<and> [Num (pi / 2)] ! 0 = Num (lib_float32 refLib r))"
proof -
  have r1: "exBackToBack ''R1'' = Some (VecArr [Vec3 1 0 0])"
    and r2: "exBackToBack ''R2'' = Some (VecArr [Vec3 (- 1) 0 0])"
    by (simp_all add: exBackToBack_def vecsDict_lookup)
  note T = ComputeAcopAngle_closed_range [where d = exBackToBack and out = "[Num (2 * pi)]"
      and i = 0 and ?R1.0 = "[Vec3 1 0 0]" and ?R2.0 = "[Vec3 (- 1) 0 0]"
      and L = refLib and h = exInput and ?m1.0 = "''PV''" and ?m2.0 = "''PV''"
      and ?d1.0 = "''pi''" and ?d2.0 = "''pi''" and phicp = "[Num (pi / 2)]" and j = 0]
  have 1: "\<exists>r. [Num (2 * pi)] ! 0 = Num r \<and> 0 \<le> r \<and> r \<le> 2 * pi \<and>
        - 1 \<le> dot (Vec3 1 0 0) (Vec3 (- 1) 0 0) \<and> dot (Vec3 1 0 0) (Vec3 (- 1) 0 0) \<le> 1"
    using T [THEN conjunct1] exBackToBack_eval r1 r2 by simp
  have 2: "\<exists>r. 0 \<le> r \<and> r \<le> 2 * pi \<and> [Num (pi / 2)] ! 0 = Num (lib_float32 refLib r)"
    using T [THEN conjunct2] GetPhiCP_exInput by simp
  from 1 2 show ?thesis using exBackToBack_eval r1 r2 GetPhiCP_exInput by simp
qed

theorem ComputeAcopAngle_emits_two_pi:
  "ComputeAcopAngle
     (vecsDict [Vec3 0 0 1] [Vec3 1 0 0] [Vec3 1 0 0] [- 1]
        [Vec3 0 0 (- 1)] [Vec3 (- 1) 0 0] [Vec3 (- 1) 0 0] [1]
        (Some [1 / 2]) (Some [- 1 / 2])) = Inr [Num (2 * pi)]"
  using exBackToBack_eval by (simp add: exBackToBack_def)

section \<open>The argument of the arc cosine\<close>

text \<open>C2. The source calls \<^verbatim>\<open>np.arccos(R1.dot(R2))\<close> on the dot product as it
  is: nothing clips it to \<open>[-1, 1]\<close>. The angle returned at an entry is \<open>NaN\<close>
  exactly when the dot product of that entry lies outside \<open>[-1, 1]\<close>, and a number
  otherwise; two vectors whose dot product overshoots 1 by one unit in the last place
  give \<open>NaN\<close>.\<close>

theorem arccos_not_clipped:
  assumes "ComputeAcopAngle d = Inr out" and "i < length out"
    and "d ''R1'' = Some (VecArr R1)" and "d ''R2'' = Some (VecArr R2)"
  shows "(out ! i = NaN) = (dot (R1 ! i) (R2 ! i) < - 1 \<or> 1 < dot (R1 ! i) (R2 ! i))"
proof -
  from ComputeAcopAngle_Inr_unpack [OF assms(1)] assms(3,4)
  obtain p1 h1 c1 p2 h2 C2 y1 y2 acop where
    pw: "preWrap p1 R1 h1 c1 p2 R2 h2 C2 y1 y2 = Inr acop" and out: "out = map wrapE acop"
    by auto
  have i: "i < length acop" using assms(2) out by simp
  show ?thesis
    using preWrap_nth(10) [OF pw i] i out
    by (simp add: wrapE_NaN_iff shiftE_NaN_iff flipE_NaN_iff np_arccos_NaN_iff)
qed

theorem arccos_not_clipped_witness:
  "ComputeAcopAngle exOrthogonal = Inr [Num (3 * pi / 2)] \<and>
   exOrthogonal ''R1'' = Some (VecArr [Vec3 1 0 0]) \<and>
   exOrthogonal ''R2'' = Some (VecArr [Vec3 0 1 0]) \<and>
   ([Num (3 * pi / 2)] ! 0 = NaN) =
     (dot (Vec3 1 0 0) (Vec3 0 1 0) < - 1 \<or> 1 < dot (Vec3 1 0 0) (Vec3 0 1 0))"
proof -
  have r1: "exOrthogonal ''R1'' = Some (VecArr [Vec3 1 0 0])"
    and r2: "exOrthogonal ''R2'' = Some (VecArr [Vec3 0 1 0])"
    by (simp_all add: exOrthogonal_def vecsDict_lookup)
  show ?thesis
    using arccos_not_clipped [OF exOrthogonal_eval _ r1 r2, of 0] exOrthogonal_eval r1 r2
    by simp
qed

theorem arccos_overshoot_gives_NaN:
  "ComputeAcopAngle
     (vecsDict [Vec3 0 0 1] [Vec3 (1 + 1 / 2 ^ 52) 0 0] [Vec3 1 0 0] [- 1]
        [Vec3 0 0 (- 1)] [Vec3 (1 + 1 / 2 ^ 52) 0 0] [Vec3 1 0 0] [1]
        None None) = Inr [NaN]"
  unfolding ComputeAcopAngle_vecsDict
  by (simp add: eval_defs)

section \<open>The steps of the computation\<close>

lemma ComputeAcopAngle_vecsDict_steps:
  assumes "ComputeAcopAngle (vecsDict P1 R1 H1 C1 P2 R2 H2 C2 Y1 Y2) = Inr out"
  shows "\<exists>Y sign a acop.
           combineY Y1 Y2 = Inr Y \<and> getSign P1 H1 P2 H2 C1 (NumArr C2) = Inr sign \<and>
           signStep sign (map np_arccos (map2 dot R1 R2)) = Inr a \<and>
           shiftStep Y a = Inr acop \<and> wrapStep acop = Inr out \<and>
           length R1 = length out \<and> length R2 = length out \<and> length C1 = length out \<and>
           length a = length out \<and> length acop = length out"
proof -
  from assms obtain acop where
    pw: "preWrap P1 R1 H1 C1 P2 R2 H2 (NumArr C2) Y1 Y2 = Inr acop" and w: "wrapStep acop = Inr out"
    by (auto simp: ComputeAcopAngle_vecsDict bindE_Inr_iff)
  from pw obtain Y d s a where
    y: "combineY Y1 Y2 = Inr Y" and
    d: "ew2 dot R1 R2 = Inr d" and
    s: "getSign P1 H1 P2 H2 C1 (NumArr C2) = Inr s" and
    a: "signStep s (map np_arccos d) = Inr a" and
    h: "shiftStep Y a = Inr acop"
    by (auto simp: preWrap_def bindE_Inr_iff)
  have dd: "d = map2 dot R1 R2" using d by (simp add: ew2_Inr_iff)
  have lo: "length out = length acop" using w by (auto simp: wrapStep_map)
  have la: "length a = length acop" using shiftStep_nth(1) [OF h] by simp
  show ?thesis
    using y s a h w dd lo la preWrap_nth(1,2,3) [OF pw] by auto
qed



text \<open>C6. \<open>Y\<close> is the product \<open>Y1 \<cdot> Y2\<close> when both are present, the one that
  is present when only one is, and absent when none is. With \<open>Y\<close> present and
  negative at an entry, the angle after the sign step is increased by \<open>\<pi>\<close>; with
  \<open>Y\<close> absent or not negative, the step leaves the angle as it is.\<close>

theorem phase_shift_step:
  assumes "ComputeAcopAngle (vecsDict P1 R1 H1 C1 P2 R2 H2 C2 Y1 Y2) = Inr out"
    and "i < length out"
  shows "\<exists>Y sign a acop.
           combineY Y1 Y2 = Inr Y \<and> getSign P1 H1 P2 H2 C1 (NumArr C2) = Inr sign \<and>
           signStep sign (map np_arccos (map2 dot R1 R2)) = Inr a \<and>
           shiftStep Y a = Inr acop \<and> wrapStep acop = Inr out \<and>
           (case Y1 of
              Some y1 \<Rightarrow> (case Y2 of
                            Some y2 \<Rightarrow> \<exists>y. Y = Some y \<and> y ! i = y1 ! i * y2 ! i
                          | None \<Rightarrow> Y = Some y1)
            | None \<Rightarrow> Y = Y2) \<and>
           (case Y of
              Some y \<Rightarrow> acop ! i = (if y ! i < 0 then fadd (a ! i) pi else a ! i)
            | None \<Rightarrow> acop ! i = a ! i)"
proof -
  from ComputeAcopAngle_vecsDict_steps [OF assms(1)] obtain Y sign a acop where
    y: "combineY Y1 Y2 = Inr Y" and s: "getSign P1 H1 P2 H2 C1 (NumArr C2) = Inr sign" and
    a: "signStep sign (map np_arccos (map2 dot R1 R2)) = Inr a" and
    h: "shiftStep Y a = Inr acop" and w: "wrapStep acop = Inr out" and
    l: "length a = length out"
    by blast
  note H = shiftStep_nth [OF h]
  have ia: "i < length a" using l assms(2) by simp
  have ly: "length y = length a" if "Y = Some y" for y
    using H(2) that by simp
  have 1: "(case Y1 of
            Some y1 \<Rightarrow> (case Y2 of
                          Some y2 \<Rightarrow> \<exists>y. Y = Some y \<and> y ! i = y1 ! i * y2 ! i
                        | None \<Rightarrow> Y = Some y1)
          | None \<Rightarrow> Y = Y2)"
  proof (cases Y1)
    case None
    then show ?thesis using y by (auto simp: combineY_def split: option.splits)
  next
    case s1: (Some y1)
    show ?thesis
    proof (cases Y2)
      case None
      then have "Y = Some y1" using y s1 by (simp add: combineY_def)
      then show ?thesis using s1 None by simp
    next
      case s2: (Some y2)
      from y s1 s2 obtain yy where
        e: "ew2 (\<lambda>a b. a * b) y1 y2 = Inr yy" and Y: "Y = Some yy"
        by (auto simp: combineY_def bindE_Inr_iff)
      have "i < length y1" using ew2_nth(2) [OF e] ly [OF Y] ia by simp
      then have "yy ! i = y1 ! i * y2 ! i" using ew2_nth(3) [OF e] by simp
      then show ?thesis using s1 s2 Y by simp
    qed
  qed
  have 2: "(case Y of
            Some y \<Rightarrow> acop ! i = (if y ! i < 0 then fadd (a ! i) pi else a ! i)
          | None \<Rightarrow> acop ! i = a ! i)"
    using H(3) [OF ia] by (cases Y) (simp_all add: shiftE_def)
  from y s a h w 1 2 show ?thesis by blast
qed

theorem phase_shift_step_witness:
  "ComputeAcopAngle
     (vecsDict [Vec3 0 0 1] [Vec3 1 0 0] [Vec3 1 0 0] [- 1]
        [Vec3 0 0 (- 1)] [Vec3 0 1 0] [Vec3 0 1 0] [1]
        (Some [1 / 2]) (Some [- 1 / 2])) = Inr [Num (pi / 2)] \<and>
   (\<exists>Y sign a acop y.
      combineY (Some [1 / 2]) (Some [- 1 / 2]) = Inr Y \<and>
      getSign [Vec3 0 0 1] [Vec3 1 0 0] [Vec3 0 0 (- 1)] [Vec3 0 1 0] [- 1] (NumArr [1]) = Inr sign \<and>
      signStep sign (map np_arccos (map2 dot [Vec3 1 0 0] [Vec3 0 1 0])) = Inr a \<and>
      shiftStep Y a = Inr acop \<and> wrapStep acop = Inr [Num (pi / 2)] \<and>
      Y = Some y \<and> y ! 0 = - 1 / 4 \<and> acop ! 0 = fadd (a ! 0) pi)"
proof -
  have h: "ComputeAcopAngle
     (vecsDict [Vec3 0 0 1] [Vec3 1 0 0] [Vec3 1 0 0] [- 1]
        [Vec3 0 0 (- 1)] [Vec3 0 1 0] [Vec3 0 1 0] [1]
        (Some [1 / 2]) (Some [- 1 / 2])) = Inr [Num (pi / 2)]"
    using exOrthogonalShift_eval by (simp add: exOrthogonalShift_def)
  have i: "0 < length [Num (pi / 2)]" by simp
  from phase_shift_step [OF h i] obtain Y sign a acop where
    f: "combineY (Some [1 / 2]) (Some [- 1 / 2]) = Inr Y"
      "getSign [Vec3 0 0 1] [Vec3 1 0 0] [Vec3 0 0 (- 1)] [Vec3 0 1 0] [- 1] (NumArr [1]) = Inr sign"
      "signStep sign (map np_arccos (map2 dot [Vec3 1 0 0] [Vec3 0 1 0])) = Inr a"
      "shiftStep Y a = Inr acop" "wrapStep acop = Inr [Num (pi / 2)]"
    and y: "\<exists>y. Y = Some y \<and> y ! 0 = [1 / 2] ! 0 * [- 1 / 2] ! 0"
    and a: "(case Y of
               Some y \<Rightarrow> acop ! 0 = (if y ! 0 < 0 then fadd (a ! 0) pi else a ! 0)
             | None \<Rightarrow> acop ! 0 = a ! 0)"
    by auto
  from y obtain y where y': "Y = Some y" "y ! 0 = - 1 / 4" by auto
  from a y' have a': "acop ! 0 = fadd (a ! 0) pi" by simp
  from h f y' a' show ?thesis by blast
qed

section \<open>The structural check of the dictionary\<close>

lemma getSign_Inl: "getSign P1 H1 P2 H2 C1 C2 = Inl e \<Longrightarrow> e = LibraryError"
  by (auto simp: getSign_def bindE_Inl_iff dest: ew2_Inl ak_where_Inl)

lemma combineY_Inl: "combineY Y1 Y2 = Inl e \<Longrightarrow> e = LibraryError"
  by (auto simp: combineY_def bindE_Inl_iff split: option.splits dest: ew2_Inl)

lemma preWrap_Inl: "preWrap P1 R1 H1 C1 P2 R2 H2 C2 Y1 Y2 = Inl e \<Longrightarrow> e = LibraryError"
  by (auto simp: preWrap_def bindE_Inl_iff signStep_def shiftStep_def split: option.splits
      dest: ew2_Inl ak_where_Inl getSign_Inl combineY_Inl)

lemma as_vecs_Inl: "as_vecs v = Inl e \<Longrightarrow> e = LibraryError"
  by (cases v) auto

lemma as_nums_Inl: "as_nums v = Inl e \<Longrightarrow> e = LibraryError"
  by (cases v) auto

lemma as_opt_nums_Inl: "as_opt_nums v = Inl e \<Longrightarrow> e = LibraryError"
  by (cases v) auto

text \<open>With the ten names present and nothing else, an exception can only come from
  the computation.\<close>

lemma ComputeAcopAngle_all_keys:
  assumes "tenNames \<subseteq> dom d" "card (dom d) = 10" "ComputeAcopAngle d = Inl e"
  shows "e = LibraryError"
proof -
  from assms(1) obtain P1 R1 H1 C1 P2 R2 H2 C2 Y1 Y2 where
    k: "d ''P1'' = Some P1" "d ''R1'' = Some R1" "d ''H1'' = Some H1" "d ''C1'' = Some C1"
       "d ''P2'' = Some P2" "d ''R2'' = Some R2" "d ''H2'' = Some H2" "d ''C2'' = Some C2"
       "d ''Y1'' = Some Y1" "d ''Y2'' = Some Y2"
    unfolding tenNames_def by (auto simp: dom_def)
  have g: "getitem d ''P1'' = Inr P1" "getitem d ''R1'' = Inr R1" "getitem d ''H1'' = Inr H1"
    "getitem d ''C1'' = Inr C1" "getitem d ''P2'' = Inr P2" "getitem d ''R2'' = Inr R2"
    "getitem d ''H2'' = Inr H2" "getitem d ''C2'' = Inr C2" "getitem d ''Y1'' = Inr Y1"
    "getitem d ''Y2'' = Inr Y2"
    using k by (simp_all add: getitem_def)
  from assms(2,3) show ?thesis
    unfolding ComputeAcopAngle_def
    by (auto simp: g bindE_Inr bindE_Inl_iff wrapStep_map
        dest: as_vecs_Inl as_nums_Inl as_opt_nums_Inl preWrap_Inl)
qed

text \<open>With ten names of which one of the expected is missing, the first missing
  lookup raises.\<close>

lemma ComputeAcopAngle_missing_key:
  assumes "card (dom d) = 10" "\<not> tenNames \<subseteq> dom d"
  shows "\<exists>k. ComputeAcopAngle d = Inl (KeyError k)"
proof -
  have "d ''P1'' = None \<or> d ''R1'' = None \<or> d ''H1'' = None \<or> d ''C1'' = None \<or>
        d ''P2'' = None \<or> d ''R2'' = None \<or> d ''H2'' = None \<or> d ''C2'' = None \<or>
        d ''Y1'' = None \<or> d ''Y2'' = None"
    using assms(2) unfolding tenNames_def by (auto simp: dom_def)
  then show ?thesis
    using assms(1) unfolding ComputeAcopAngle_def bindE_getitem
    by (auto split: option.splits)
qed

text \<open>C8. \<^verbatim>\<open>ComputeAcopAngle\<close> raises a structural exception (the assertion on
  the size, or a missing key) exactly when the names of the dictionary are not the ten
  names \<open>P1, R1, H1, C1, P2, R2, H2, C2, Y1, Y2\<close>. The check comes first: with other
  names the exception is structural whatever the values are, and with exactly these
  names an exception can only come from the computation.\<close>

theorem ComputeAcopAngle_structure:
  "(\<exists>e. ComputeAcopAngle d = Inl e \<and> is_structural e) \<longleftrightarrow> dom d \<noteq> tenNames"
proof
  assume "\<exists>e. ComputeAcopAngle d = Inl e \<and> is_structural e"
  then obtain e where e: "ComputeAcopAngle d = Inl e" "is_structural e" by blast
  show "dom d \<noteq> tenNames"
  proof
    assume eq: "dom d = tenNames"
    then have "e = LibraryError"
      using ComputeAcopAngle_all_keys [of d e] e(1) card_tenNames by simp
    with e(2) show False by simp
  qed
next
  assume ne: "dom d \<noteq> tenNames"
  show "\<exists>e. ComputeAcopAngle d = Inl e \<and> is_structural e"
  proof (cases "card (dom d) = 10")
    case False
    then have "ComputeAcopAngle d = Inl AssertionError"
      by (simp add: ComputeAcopAngle_def)
    then show ?thesis by simp
  next
    case True
    then have fin: "finite (dom d)" by (simp add: card_ge_0_finite)
    have "\<not> tenNames \<subseteq> dom d"
    proof
      assume "tenNames \<subseteq> dom d"
      then have "tenNames = dom d"
        using fin True card_tenNames by (simp add: card_subset_eq)
      with ne show False by simp
    qed
    from ComputeAcopAngle_missing_key [OF True this] show ?thesis by auto
  qed
qed

theorem ComputeAcopAngle_structure_witness:
  "dom (exOrthogonal(''X1'' \<mapsto> PyNone)) \<noteq> tenNames \<and>
   ComputeAcopAngle (exOrthogonal(''X1'' \<mapsto> PyNone)) = Inl AssertionError \<and>
   (\<exists>e. ComputeAcopAngle (exOrthogonal(''X1'' \<mapsto> PyNone)) = Inl e \<and> is_structural e) \<and>
   dom exOrthogonal = tenNames \<and>
   \<not> (\<exists>e. ComputeAcopAngle exOrthogonal = Inl e \<and> is_structural e)"
proof -
  have d: "dom exOrthogonal = tenNames" by (simp add: exOrthogonal_def dom_vecsDict)
  have x: "''X1'' \<notin> tenNames" by (simp add: tenNames_def)
  have "''X1'' \<in> dom (exOrthogonal(''X1'' \<mapsto> PyNone))" by simp
  with x have n: "dom (exOrthogonal(''X1'' \<mapsto> PyNone)) \<noteq> tenNames" by metis
  have a: "ComputeAcopAngle (exOrthogonal(''X1'' \<mapsto> PyNone)) = Inl AssertionError"
  proof -
    have "finite tenNames" by (simp add: tenNames_def)
    then have "card (dom (exOrthogonal(''X1'' \<mapsto> PyNone))) = 11"
      using x by (simp add: d card_tenNames)
    then show ?thesis by (simp add: ComputeAcopAngle_def)
  qed
  show ?thesis
    using ComputeAcopAngle_structure [of "exOrthogonal(''X1'' \<mapsto> PyNone)"]
      ComputeAcopAngle_structure [of exOrthogonal] d n a
    by simp
qed

section \<open>The final mapping of the angle\<close>

text \<open>C9. For every angle that the computation hands to the final mapping step
  (subtract \<open>2\<pi>\<close> from a value above \<open>2\<pi>\<close>, then add \<open>2\<pi>\<close> to a value below \<open>0\<close>),
  applying the step twice gives the same array as applying it once. The angles before
  the step are those of \<open>preWrap\<close>: they lie in \<open>[0, 3\<pi>]\<close> or are \<open>NaN\<close>.\<close>

theorem wrap_twice:
  assumes "preWrap P1 R1 H1 C1 P2 R2 H2 C2 Y1 Y2 = Inr acop"
  shows "bindE (wrapStep acop) wrapStep = wrapStep acop"
proof -
  have "wrapE (wrapE a) = wrapE a" if "a \<in> set acop" for a
  proof -
    from that obtain i where "i < length acop" "a = acop ! i"
      by (auto simp: in_set_conv_nth)
    then have "inR 0 (3 * pi) a" using preWrap_inR [OF assms] by simp
    then have "inR (- (2 * pi)) (4 * pi) a"
      using pi_ge_zero by (cases a) (simp_all add: inR_def)
    then show ?thesis by (rule wrapE_idem)
  qed
  then show ?thesis by (simp add: wrapStep_map bindE_Inr)
qed

theorem wrap_twice_witness:
  "preWrap [Vec3 0 0 1] [Vec3 1 0 0] [Vec3 1 0 0] [- 1]
       [Vec3 0 0 (- 1)] [Vec3 0 1 0] [Vec3 0 1 0] (NumArr [1])
       (Some [1 / 2]) (Some [- 1 / 2]) = Inr [Num (5 * pi / 2)] \<and>
   bindE (wrapStep [Num (5 * pi / 2)]) wrapStep = wrapStep [Num (5 * pi / 2)] \<and>
   wrapStep [Num (5 * pi / 2)] = Inr [Num (pi / 2)]"
proof -
  have w: "wrapStep [Num (5 * pi / 2)] = Inr [Num (pi / 2)]"
    unfolding wrapStep_map using pi_gt_zero by (simp add: wrapE_def Let_def)
  show ?thesis
    using wrap_twice [OF preWrap_exOrthogonalShift] preWrap_exOrthogonalShift w by simp
qed

section \<open>The charge of the second leg\<close>

text \<open>C10. The sign is chosen by the charge of leg 1 alone: where \<open>C1 < 0\<close> it is
  \<open>P1 \<cdot> (H2 \<times> H1)\<close>, elsewhere \<open>P2 \<cdot> (H1 \<times> H2)\<close>, whatever \<open>C2\<close> is. Two
  dictionaries that differ in the value of \<open>C2\<close> only give the same result of
  \<^verbatim>\<open>ComputeAcopAngle\<close>, the same angles or the same exception; this holds for equal
  charges and for a charge 0 too, since no condition on the charges is used.\<close>

theorem C2_never_read:
  "getSign P1 H1 P2 H2 C1 v = getSign P1 H1 P2 H2 C1 w \<and>
   ComputeAcopAngle (d(''C2'' \<mapsto> v)) = ComputeAcopAngle (d(''C2'' \<mapsto> w)) \<and>
   (getSign P1 H1 P2 H2 C1 v = Inr s \<longrightarrow> i < length s \<longrightarrow>
      s ! i = (if C1 ! i < 0 then dot (P1 ! i) (cross (H2 ! i) (H1 ! i))
               else dot (P2 ! i) (cross (H1 ! i) (H2 ! i))))"
proof (intro conjI impI)
  show "getSign P1 H1 P2 H2 C1 v = getSign P1 H1 P2 H2 C1 w"
    by (simp add: getSign_def)
  have pw: "preWrap p1 r1 h1 c1 p2 r2 h2 v y1 y2 = preWrap p1 r1 h1 c1 p2 r2 h2 w y1 y2"
    for p1 r1 h1 c1 p2 r2 h2 y1 y2
    by (simp add: preWrap_def getSign_def)
  show "ComputeAcopAngle (d(''C2'' \<mapsto> v)) = ComputeAcopAngle (d(''C2'' \<mapsto> w))"
    by (simp add: ComputeAcopAngle_def getitem_def bindE_Inr pw)
  assume s: "getSign P1 H1 P2 H2 C1 v = Inr s" and i: "i < length s"
  show "s ! i = (if C1 ! i < 0 then dot (P1 ! i) (cross (H2 ! i) (H1 ! i))
               else dot (P2 ! i) (cross (H1 ! i) (H2 ! i)))"
    using getSign_Inr(6) [OF s, of i] getSign_Inr(5) [OF s] i by (simp add: signE_def)
qed

theorem C2_never_read_witness:
  "getSign [Vec3 0 0 1] [Vec3 1 0 0] [Vec3 0 0 (- 1)] [Vec3 0 1 0] [0] PyNone = Inr [- 1] \<and>
   getSign [Vec3 0 0 1] [Vec3 1 0 0] [Vec3 0 0 (- 1)] [Vec3 0 1 0] [0] (NumArr [- 1]) = Inr [- 1] \<and>
   ComputeAcopAngle (exOrthogonal(''C2'' \<mapsto> PyNone)) =
     ComputeAcopAngle (exOrthogonal(''C2'' \<mapsto> NumArr [- 1])) \<and>
   [- 1] ! 0 = dot (Vec3 0 0 (- 1)) (cross (Vec3 1 0 0) (Vec3 0 1 0))"
  using C2_never_read [where ?P1.0 = "[Vec3 0 0 1]" and ?H1.0 = "[Vec3 1 0 0]"
      and ?P2.0 = "[Vec3 0 0 (- 1)]" and ?H2.0 = "[Vec3 0 1 0]" and ?C1.0 = "[0]"
      and v = PyNone and w = "NumArr [- 1]" and d = exOrthogonal and s = "[- 1]" and i = 0]
    getSign_same_sign
  by simp


end
